theory Spec2Isabelle
  imports Main "HOL-Library.Sublist"
begin

text \<open>
  A model of the chat component \<open>ChatApp\<close>: its message log, roster, reactions, status
  throttle, search, scroll anchoring and simulated replies. Every handler is a function
  from the state before to the state after. The handlers of user actions are created
  anew whenever a state cell they read changes, so they read the state they are applied
  to; a callback handed to \<open>setTimeout\<close> keeps the values of the render that scheduled
  it, and these are written into the pending timer. The reaction handler is the
  exception: it is created once, at the first render, and keeps the values of that render.
\<close>

section \<open>Strings\<close>

text \<open>
  A JavaScript string is a sequence of UTF-16 code units; the model uses lists of natural
  numbers. \<open>str\<close> gives the code units of an ASCII literal.
\<close>

type_synonym jsstring = "nat list"

definition str :: "string \<Rightarrow> jsstring" where
  "str s = map of_char s"

text \<open>
  \<open>String.prototype.trim\<close> strips white space and line terminators from both ends: TAB,
  LF, VT, FF, CR, SP, NBSP, U+1680, U+2000 to U+200A, U+2028, U+2029, U+202F, U+205F,
  U+3000 and U+FEFF. The regular expression class \<open>\s\<close> matches the same code units.
\<close>

definition isWhiteSpace :: "nat \<Rightarrow> bool" where
  "isWhiteSpace c =
     (c \<in> {9, 10, 11, 12, 13, 32, 160, 5760, 8232, 8233, 8239, 8287, 12288, 65279}
      \<or> (8192 \<le> c \<and> c \<le> 8202))"

definition trim :: "jsstring \<Rightarrow> jsstring" where
  "trim s = rev (dropWhile isWhiteSpace (rev (dropWhile isWhiteSpace s)))"

text \<open>
  \<open>String.prototype.toLowerCase\<close> is the default case conversion of Unicode. It is
  written out here for ASCII, Latin-1 and the Greek alphabet (U+0391 to U+03A9 and U+03B1
  to U+03C9); a code unit outside these ranges is left as it is. A capital letter moves
  up by 32: A to Z, the Latin-1 capitals (192 to 222 without the multiplication sign 215)
  and the Greek capitals (913 to 937; 930 is unassigned). The one rule that looks at the
  neighbours is the final sigma: capital sigma (931) becomes final sigma (962) instead
  of sigma (963) when a cased letter comes before it and no cased letter comes after it,
  where case-ignorable characters next to the sigma are skipped on either side.
\<close>

definition toLowerChar :: "nat \<Rightarrow> nat" where
  "toLowerChar c =
     (if (65 \<le> c \<and> c \<le> 90) \<or> (192 \<le> c \<and> c \<le> 222 \<and> c \<noteq> 215)
         \<or> (913 \<le> c \<and> c \<le> 937 \<and> c \<noteq> 930)
      then c + 32 else c)"

definition isCased :: "nat \<Rightarrow> bool" where
  "isCased c =
     ((65 \<le> c \<and> c \<le> 90) \<or> (97 \<le> c \<and> c \<le> 122) \<or> c \<in> {170, 181, 186}
      \<or> (192 \<le> c \<and> c \<le> 214) \<or> (216 \<le> c \<and> c \<le> 246) \<or> (248 \<le> c \<and> c \<le> 255)
      \<or> (913 \<le> c \<and> c \<le> 937 \<and> c \<noteq> 930) \<or> (945 \<le> c \<and> c \<le> 969))"

definition isCaseIgnorable :: "nat \<Rightarrow> bool" where
  "isCaseIgnorable c = (c \<in> {39, 46, 58, 94, 96, 168, 173, 175, 180, 183, 184})"

fun casedNext :: "jsstring \<Rightarrow> bool" where
  "casedNext [] = False"
| "casedNext (c # cs) =
     (if isCased c then True else if isCaseIgnorable c then casedNext cs else False)"

text \<open>
  \<open>lowerFrom before rest\<close> lowers \<open>rest\<close>; \<open>before\<close> holds the code units already
  passed, nearest first.
\<close>

fun lowerFrom :: "jsstring \<Rightarrow> jsstring \<Rightarrow> jsstring" where
  "lowerFrom before [] = []"
| "lowerFrom before (c # cs) =
     (if c = 931 \<and> casedNext before \<and> \<not> casedNext cs then 962 else toLowerChar c)
       # lowerFrom (c # before) cs"

definition toLowerCase :: "jsstring \<Rightarrow> jsstring" where
  "toLowerCase s = lowerFrom [] s"

text \<open>\<open>text.includes(q)\<close>: \<open>q\<close> occurs at some position of \<open>text\<close>.\<close>

fun stringIncludes :: "jsstring \<Rightarrow> jsstring \<Rightarrow> bool" where
  "stringIncludes [] q = (q = [])"
| "stringIncludes (c # cs) q = (prefix q (c # cs) \<or> stringIncludes cs q)"

text \<open>
  \<open>name.replace(/\s+/g, "-")\<close>: every maximal run of white space becomes one hyphen.
\<close>

fun replaceRuns :: "bool \<Rightarrow> jsstring \<Rightarrow> jsstring" where
  "replaceRuns inRun [] = []"
| "replaceRuns inRun (c # cs) =
     (if isWhiteSpace c
      then (if inRun then replaceRuns True cs else 45 # replaceRuns True cs)
      else c # replaceRuns False cs)"

definition replaceWhiteSpaceRuns :: "jsstring \<Rightarrow> jsstring" where
  "replaceWhiteSpaceRuns s = replaceRuns False s"

text \<open>Template literals print a number in decimal.\<close>

definition digitChar :: "nat \<Rightarrow> nat" where
  "digitChar d = 48 + d"

fun decimal :: "nat \<Rightarrow> jsstring" where
  "decimal n = (if n < 10 then [digitChar n] else decimal (n div 10) @ [digitChar (n mod 10)])"

definition numberToString :: "int \<Rightarrow> jsstring" where
  "numberToString i = (if i < 0 then 45 # decimal (nat (- i)) else decimal (nat i))"

section \<open>Data model\<close>

text \<open>
  The interfaces \<open>User\<close> and \<open>Message\<close> of the component. The field \<open>reactions\<close> is an
  object indexed by user id; it is a map from user ids to emoji. Dates are milliseconds
  since the epoch. The six emoji of the picker are written with ASCII names.
\<close>

datatype presence = Online | Offline | BRB | Busy

datatype delivery = Sent | Delivered | Read

record user =
  user_id :: jsstring
  user_name :: jsstring
  avatar :: jsstring
  user_status :: presence
  lastSeen :: "int option"
  isTyping :: bool

record message =
  message_id :: jsstring
  senderId :: jsstring
  message_text :: jsstring
  timestamp :: int
  reactions :: "jsstring \<rightharpoonup> jsstring"
  message_status :: delivery

definition emojis :: "jsstring list" where
  "emojis = [str ''thumbsup'', str ''heart'', str ''joy'', str ''open_mouth'', str ''cry'',
             str ''rage'']"

text \<open>
  The element that the reaction handler and the scroll listener read and write:
  \<open>messagesEndRef.current?.parentElement\<close>, the parent of the end marker. In the page
  this is the column that holds the messages inside the scrolling element
  (\<open>chatContainerRef\<close> of the chat window), not the scrolling element itself. The record
  holds the three properties the code uses.
\<close>

record element =
  scrollTop :: int
  scrollHeight :: int
  clientHeight :: int

text \<open>
  What \<open>new Date()\<close>, \<open>Date.now()\<close> and \<open>Math.floor(Math.random() * 1000)\<close> return at
  the moment a handler runs. \<open>getMinutes\<close> is the minute of the hour and \<open>getSeconds\<close>
  the second of the minute.
\<close>

record reading =
  now :: int
  getHours :: nat
  getMinutes :: nat
  getSeconds :: nat
  random :: nat

text \<open>
  The functions handed to \<open>setTimeout\<close> and \<open>requestAnimationFrame\<close>, each with the
  values its closure holds:
  \<^item> \<open>TypingStart\<close>: \<open>isMounted\<close> and the id of \<open>respondingUser\<close>;
  \<^item> \<open>SendReply\<close>: \<open>isMounted\<close>, \<open>respondingUser\<close>, \<open>messages\<close> and \<open>currentUser\<close>;
  \<^item> \<open>AddReaction\<close>: \<open>isMounted\<close>, \<open>messages\<close> and \<open>currentUser\<close>;
  \<^item> \<open>RestoreScroll\<close>: whether \<open>chatContainer\<close> is an element, \<open>prevScrollPosition\<close>
    and \<open>prevScrollHeight\<close>;
  \<^item> \<open>ScrollToEnd\<close>: the frame callback of \<open>scrollToBottom\<close>;
  \<^item> \<open>ClearCurrentUser\<close>: the delayed part of \<open>handleLogout\<close>;
  \<^item> \<open>FocusInput\<close>: the refocus requested by the input box after a send.
\<close>

datatype callback =
    TypingStart bool jsstring
  | SendReply bool user "message list" user
  | AddReaction bool "message list" user
  | RestoreScroll bool int int
  | ScrollToEnd
  | ClearCurrentUser
  | FocusInput

datatype scroll_request = RevealMessage jsstring | RevealEnd

text \<open>
  The state of the component: the React state cells that the chat logic reads and writes,
  the two refs of the status throttle, the timers that are pending (delay and callback),
  the parent element of the end marker (\<open>chatContainer\<close>, none while the marker is not
  in the page), and the smooth-scroll requests issued so far. Modal, theme and sidebar
  flags are presentation and are left out.
\<close>

record session =
  isMounted :: bool
  currentUser :: "user option"
  users :: "user list"
  messages :: "message list"
  appIsTyping :: bool
  typingTimeout :: "nat option"
  searchResults :: "message list"
  currentSearchIndex :: int
  shouldAutoScroll :: bool
  showScrollToBottom :: bool
  lastStatusUpdateRef :: int
  statusAnimationRef :: "(presence \<times> jsstring) option"
  timers :: "(nat \<times> callback) list"
  chatContainer :: "element option"
  scrollRequests :: "scroll_request list"

text \<open>The state cells of the input box component \<open>ChatInput\<close>.\<close>

record chat_input =
  localInputMessage :: jsstring
  localIsTyping :: bool
  localTypingTimeoutRef :: "nat option"

section \<open>Search\<close>

text \<open>
  \<open>performSearch\<close>. A query that trims to the empty string clears the results and sets the
  index to \<open>-1\<close>. Otherwise the messages whose lower-cased text includes the lower-cased
  query are kept in log order, the index is \<open>0\<close> when there is a result and \<open>-1\<close> when
  there is none, and the first result is asked to scroll into view.
\<close>

definition performSearch :: "jsstring \<Rightarrow> session \<Rightarrow> session" where
  "performSearch query s =
     (if trim query = [] then s\<lparr>searchResults := [], currentSearchIndex := - 1\<rparr>
      else
        let results = filter (\<lambda>m. stringIncludes (toLowerCase (message_text m)) (toLowerCase query))
                        (messages s);
            s1 = s\<lparr>searchResults := results,
                   currentSearchIndex := (if length results > 0 then 0 else - 1)\<rparr>
        in if length results > 0
           then s1\<lparr>scrollRequests := scrollRequests s1 @ [RevealMessage (message_id (hd results))]\<rparr>
           else s1)"

text \<open>
  \<open>navigateSearch\<close>. Nothing happens without results. Otherwise the index moves one step
  and wraps around, and the result at the new index is asked to scroll into view. The
  remainder is JavaScript's, which takes the sign of the dividend.
\<close>

datatype direction = Prev | Next

definition navigateSearch :: "direction \<Rightarrow> session \<Rightarrow> session" where
  "navigateSearch dir s =
     (if length (searchResults s) = 0 then s
      else
        let n = int (length (searchResults s));
            newIndex =
              (case dir of
                 Next \<Rightarrow> (if 0 \<le> currentSearchIndex s + 1
                          then (currentSearchIndex s + 1) mod n
                          else - ((- (currentSearchIndex s + 1)) mod n))
               | Prev \<Rightarrow> (if currentSearchIndex s - 1 < 0 then n - 1
                          else currentSearchIndex s - 1));
            s1 = s\<lparr>currentSearchIndex := newIndex\<rparr>
        in if 0 \<le> newIndex \<and> newIndex < n
           then s1\<lparr>scrollRequests := scrollRequests s1 @
                     [RevealMessage (message_id (searchResults s ! nat newIndex))]\<rparr>
           else s1)"

text \<open>
  The specification's reading of a match, written without the lower-casing of the code.
  Two code units are the same letter when they are equal or when one is a capital letter
  (A to Z or a Latin-1 capital) and the other is its small letter, 32 above it. The query
  occurs in a text when some contiguous part of the text has the length of the query and
  agrees with it letter by letter in this sense.
\<close>

definition capitalLetters :: "nat set" where
  "capitalLetters = {65..90} \<union> {192..214} \<union> {216..222}"

definition sameLetter :: "nat \<Rightarrow> nat \<Rightarrow> bool" where
  "sameLetter x y =
     (x = y \<or> (x \<in> capitalLetters \<and> y = x + 32) \<or> (y \<in> capitalLetters \<and> x = y + 32))"

definition occursIgnoringCase :: "jsstring \<Rightarrow> jsstring \<Rightarrow> bool" where
  "occursIgnoringCase query body =
     (\<exists>before part after. body = before @ part @ after \<and> list_all2 sameLetter part query)"

text \<open>Strings of ASCII and Latin-1 code units.\<close>

definition latin1 :: "jsstring \<Rightarrow> bool" where
  "latin1 s = list_all (\<lambda>c. c < 256) s"

section \<open>Seed data\<close>

text \<open>
  \<open>mockUsers\<close> and \<open>mockMessages\<close>; the message dates are offsets from \<open>Date.now()\<close> at
  the first render.
\<close>

definition mockUsers :: "reading \<Rightarrow> user list" where
  "mockUsers rd =
     [\<lparr>user_id = str ''user1'', user_name = str ''Alex Johnson'',
       avatar = str ''https://randomuser.me/api/portraits/men/32.jpg'',
       user_status = Online, lastSeen = None, isTyping = False\<rparr>,
      \<lparr>user_id = str ''user2'', user_name = str ''Samantha Lee'',
       avatar = str ''https://randomuser.me/api/portraits/women/44.jpg'',
       user_status = Online, lastSeen = None, isTyping = False\<rparr>,
      \<lparr>user_id = str ''user3'', user_name = str ''Michael Chen'',
       avatar = str ''https://randomuser.me/api/portraits/men/59.jpg'',
       user_status = BRB, lastSeen = None, isTyping = False\<rparr>,
      \<lparr>user_id = str ''user4'', user_name = str ''Jessica Taylor'',
       avatar = str ''https://randomuser.me/api/portraits/women/16.jpg'',
       user_status = Busy, lastSeen = None, isTyping = False\<rparr>,
      \<lparr>user_id = str ''user5'', user_name = str ''David Wilson'',
       avatar = str ''https://randomuser.me/api/portraits/men/7.jpg'',
       user_status = Offline, lastSeen = Some (now rd - 3600000), isTyping = False\<rparr>]"

definition mockMessages :: "reading \<Rightarrow> message list" where
  "mockMessages rd =
     [\<lparr>message_id = str ''msg1'', senderId = str ''user1'',
       message_text = str ''Hey everyone! How'' @ [39] @ str ''s it going?'',
       timestamp = now rd - 10800000,
       reactions = [str ''user2'' \<mapsto> str ''thumbsup'', str ''user4'' \<mapsto> str ''heart''],
       message_status = Sent\<rparr>,
      \<lparr>message_id = str ''msg2'', senderId = str ''user2'',
       message_text = str ''Pretty good! Working on that new project. What about you?'',
       timestamp = now rd - 9000000, reactions = Map.empty, message_status = Sent\<rparr>,
      \<lparr>message_id = str ''msg3'', senderId = str ''user3'',
       message_text = str ''I'' @ [39] @ str ''m just taking a quick break. brb in 10 minutes!'',
       timestamp = now rd - 7200000, reactions = [str ''user1'' \<mapsto> str ''thumbsup''],
       message_status = Sent\<rparr>,
      \<lparr>message_id = str ''msg4'', senderId = str ''user1'',
       message_text = str ''No worries, take your time!'',
       timestamp = now rd - 6480000, reactions = Map.empty, message_status = Sent\<rparr>,
      \<lparr>message_id = str ''msg5'', senderId = str ''user4'',
       message_text = str ''Hey can someone help me with the new API documentation?'',
       timestamp = now rd - 5400000, reactions = Map.empty, message_status = Sent\<rparr>,
      \<lparr>message_id = str ''msg6'', senderId = str ''user2'',
       message_text = str ''I can help! Give me a sec to find my notes.'',
       timestamp = now rd - 4320000, reactions = [str ''user4'' \<mapsto> str ''pray''],
       message_status = Sent\<rparr>,
      \<lparr>message_id = str ''msg7'', senderId = str ''user1'',
       message_text = str ''Has anyone seen the latest deployment? Looks like there might be an issue with the authentication module.'',
       timestamp = now rd - 3600000, reactions = [str ''user2'' \<mapsto> str ''open_mouth''],
       message_status = Sent\<rparr>,
      \<lparr>message_id = str ''msg8'', senderId = str ''user4'',
       message_text = str ''I'' @ [39] @ str ''m checking it now. Will update everyone in a few minutes when I know more.'',
       timestamp = now rd - 1800000,
       reactions = [str ''user1'' \<mapsto> str ''thumbsup'', str ''user2'' \<mapsto> str ''thumbsup''],
       message_status = Sent\<rparr>]"

text \<open>The state cells at the first render, and the two effects that run after it.\<close>

definition initialSession :: session where
  "initialSession =
     \<lparr>isMounted = False, currentUser = None, users = [], messages = [],
      appIsTyping = False, typingTimeout = None, searchResults = [],
      currentSearchIndex = - 1, shouldAutoScroll = True, showScrollToBottom = False,
      lastStatusUpdateRef = 0, statusAnimationRef = None, timers = [],
      chatContainer = None, scrollRequests = []\<rparr>"

definition mount :: "reading \<Rightarrow> session \<Rightarrow> session" where
  "mount rd s = s\<lparr>isMounted := True, users := mockUsers rd, messages := mockMessages rd\<rparr>"

section \<open>Roster\<close>

text \<open>
  \<open>handleLoginSubmit\<close>, reached from the login box, which passes the trimmed name when it
  is not empty, and \<open>handleLogout\<close>. The two source files differ in the logout: one
  clears the current user 150 ms later (\<open>handleLogout\<close>), the other in the click itself
  (\<open>handleLogoutNow\<close>).
\<close>

definition handleLoginSubmit :: "reading \<Rightarrow> jsstring \<Rightarrow> session \<Rightarrow> session" where
  "handleLoginSubmit rd name s =
     (if \<not> isMounted s then s
      else
        let userId = str ''user-'' @ replaceWhiteSpaceRuns (toLowerCase name) @ str ''-''
                       @ numberToString (now rd);
            avatarIndex = length name mod 60;
            newUser = \<lparr>user_id = userId, user_name = name,
                       avatar = str ''https://randomuser.me/api/portraits/men/''
                                  @ decimal avatarIndex @ str ''.jpg'',
                       user_status = Online, lastSeen = None, isTyping = False\<rparr>
        in s\<lparr>currentUser := Some newUser, users := users s @ [newUser]\<rparr>)"

definition LoginInput_handleLogin :: "reading \<Rightarrow> jsstring \<Rightarrow> session \<Rightarrow> session" where
  "LoginInput_handleLogin rd localLoginName s =
     (if trim localLoginName \<noteq> [] then handleLoginSubmit rd (trim localLoginName) s else s)"

definition handleLogout :: "session \<Rightarrow> session" where
  "handleLogout s = s\<lparr>timers := timers s @ [(150, ClearCurrentUser)]\<rparr>"

definition handleLogoutNow :: "session \<Rightarrow> session" where
  "handleLogoutNow s = s\<lparr>currentUser := None\<rparr>"

definition updateUserTypingStatus :: "jsstring \<Rightarrow> bool \<Rightarrow> session \<Rightarrow> session" where
  "updateUserTypingStatus userId typing s =
     s\<lparr>users := map (\<lambda>u. if user_id u = userId then u\<lparr>isTyping := typing\<rparr> else u) (users s)\<rparr>"

text \<open>
  \<open>changeUserStatus\<close>. Nothing happens without a current user or when the status is the
  current one; nothing happens either when fewer than 300 ms have passed since
  \<open>lastStatusUpdateRef\<close>. Otherwise the time is recorded, a pending frame request is
  cancelled and a new one is made. \<open>statusAnimationRef\<close> holds the pending request with
  what its callback closes over: the status and the id of the current user.
  \<open>statusAnimationFrame\<close> is that callback.
\<close>

definition changeUserStatus :: "reading \<Rightarrow> presence \<Rightarrow> session \<Rightarrow> session" where
  "changeUserStatus rd status s =
     (case currentUser s of
        None \<Rightarrow> s
      | Some cu \<Rightarrow>
          if user_status cu = status then s
          else if now rd - lastStatusUpdateRef s < 300 then s
          else s\<lparr>lastStatusUpdateRef := now rd,
                 statusAnimationRef := Some (status, user_id cu)\<rparr>)"

definition statusAnimationFrame :: "session \<Rightarrow> session" where
  "statusAnimationFrame s =
     (case statusAnimationRef s of
        None \<Rightarrow> s
      | Some (status, userId) \<Rightarrow>
          s\<lparr>currentUser := map_option (\<lambda>prev. prev\<lparr>user_status := status\<rparr>) (currentUser s),
            users := map (\<lambda>u. if user_id u = userId then u\<lparr>user_status := status\<rparr> else u)
                       (users s),
            statusAnimationRef := None\<rparr>)"

section \<open>Scrolling\<close>

text \<open>
  The scroll listener \<open>handleScroll\<close> is attached to \<open>chatContainer\<close> and derives the two
  flags from it; \<open>scrollToBottom\<close> asks, on the next frame, for a smooth scroll to the end
  marker; \<open>handleScrollToBottom\<close> sets the flags and calls \<open>scrollToBottom\<close> (the page
  binds it to no element); \<open>restoreScroll\<close>, the function that the reaction handler
  schedules, assigns \<open>scrollTop\<close> of \<open>chatContainer\<close>.
\<close>

definition isAtBottom :: "element \<Rightarrow> bool" where
  "isAtBottom el = (scrollHeight el - scrollTop el - clientHeight el < 150)"

definition handleScroll :: "session \<Rightarrow> session" where
  "handleScroll s =
     (case chatContainer s of
        None \<Rightarrow> s
      | Some el \<Rightarrow>
          s\<lparr>shouldAutoScroll := isAtBottom el,
            showScrollToBottom := (\<not> isAtBottom el \<and> length (messages s) > 0)\<rparr>)"

definition scrollToBottom :: "session \<Rightarrow> session" where
  "scrollToBottom s = s\<lparr>timers := timers s @ [(0, ScrollToEnd)]\<rparr>"

definition handleScrollToBottom :: "session \<Rightarrow> session" where
  "handleScrollToBottom s =
     (scrollToBottom (s\<lparr>shouldAutoScroll := True\<rparr>))\<lparr>showScrollToBottom := False\<rparr>"

definition restoreScroll :: "bool \<Rightarrow> int \<Rightarrow> int \<Rightarrow> session \<Rightarrow> session" where
  "restoreScroll present prevScrollPosition prevScrollHeight s =
     (if present
      then s\<lparr>chatContainer :=
               map_option (\<lambda>el. let newScrollHeight = scrollHeight el;
                                     heightDiff = newScrollHeight - prevScrollHeight
                                 in el\<lparr>scrollTop := prevScrollPosition + heightDiff\<rparr>)
                 (chatContainer s)\<rparr>
      else s)"

section \<open>Messages\<close>

text \<open>
  \<open>handleEmojiReaction\<close>. The callback is memoised with an empty dependency list
  (\<open>useCallback(..., [])\<close>), so the component keeps the function of its first render, and
  the \<open>currentUser\<close> that the body reads is the one of that render. The argument \<open>cu\<close> is
  this closure value; in the running component it is \<open>currentUser initialSession\<close>, which
  is none, whoever has logged in since. The body returns at once without a current user;
  otherwise it records the scroll offset and content height of \<open>chatContainer\<close>, toggles
  the reaction of \<open>cu\<close> on every message with the given id, and schedules \<open>restoreScroll\<close>
  four times.
\<close>

definition toggleReactionOf :: "jsstring \<Rightarrow> jsstring \<Rightarrow> message \<Rightarrow> message" where
  "toggleReactionOf userId emoji m =
     (if reactions m userId = Some emoji
      then m\<lparr>reactions := (reactions m)(userId := None)\<rparr>
      else m\<lparr>reactions := (reactions m)(userId \<mapsto> emoji)\<rparr>)"

definition handleEmojiReaction :: "user option \<Rightarrow> jsstring \<Rightarrow> jsstring \<Rightarrow> session \<Rightarrow> session" where
  "handleEmojiReaction cu messageId emoji s =
     (case cu of
        None \<Rightarrow> s
      | Some u \<Rightarrow>
          let prevScrollPosition = (case chatContainer s of None \<Rightarrow> 0 | Some el \<Rightarrow> scrollTop el);
              prevScrollHeight = (case chatContainer s of None \<Rightarrow> 0 | Some el \<Rightarrow> scrollHeight el);
              s1 = s\<lparr>messages := map (\<lambda>m. if message_id m = messageId
                                           then toggleReactionOf (user_id u) emoji m else m)
                                    (messages s)\<rparr>;
              cb = RestoreScroll (chatContainer s \<noteq> None) prevScrollPosition prevScrollHeight
          in s1\<lparr>timers := timers s1 @ [(0, cb), (10, cb), (50, cb), (100, cb)]\<rparr>)"

section \<open>Response simulator\<close>

definition responses :: "jsstring list" where
  "responses =
     [str ''That'' @ [39] @ str ''s interesting! Tell me more.'',
      (str ''I agree with your point.''),
      (str ''I'') @ [39] @ str ''m not sure I follow. Can you explain?'',
      (str ''Great idea!''),
      (str ''Let'') @ [39] @ str ''s discuss this further in the meeting tomorrow.'',
      (str ''I'') @ [39] @ str ''ll check with the team and get back to you.'',
      (str ''Thanks for the update!''),
      (str ''Could you share the documentation?'')]"

text \<open>
  \<open>simulateResponse\<close>. The first argument is the render whose \<open>isMounted\<close>, \<open>currentUser\<close>,
  \<open>users\<close> and \<open>messages\<close> the function closes over; the timers are added to the state
  given last.
\<close>

definition respondingUsers :: "user \<Rightarrow> user list \<Rightarrow> user list" where
  "respondingUsers cu us = filter (\<lambda>u. user_id u \<noteq> user_id cu \<and> user_status u = Online) us"

definition simulateResponse :: "session \<Rightarrow> reading \<Rightarrow> session \<Rightarrow> session" where
  "simulateResponse r rd s =
     (let shouldRespond = (getSeconds rd mod 3 = 0)
      in case currentUser r of
           None \<Rightarrow> s
         | Some cu \<Rightarrow>
             if \<not> isMounted r \<or> \<not> shouldRespond then s
             else if length (respondingUsers cu (users r)) = 0 then s
             else
               let respondingUserIndex = getMinutes rd mod length (respondingUsers cu (users r));
                   respondingUser = respondingUsers cu (users r) ! respondingUserIndex
               in s\<lparr>timers := timers s @
                      [(1000, TypingStart (isMounted r) (user_id respondingUser)),
                       (3000, SendReply (isMounted r) respondingUser (messages r) cu)]\<rparr>)"

text \<open>
  The timer callbacks. \<open>cuH\<close> is the \<open>currentUser\<close> in the closure of
  \<open>handleEmojiReaction\<close>, which the reaction callback calls (\<open>currentUser initialSession\<close>
  in the running component); \<open>rd\<close> is the clock when the callback runs.
\<close>

definition typingStart :: "bool \<Rightarrow> jsstring \<Rightarrow> session \<Rightarrow> session" where
  "typingStart mounted respondingUserId s =
     (if \<not> mounted then s else updateUserTypingStatus respondingUserId True s)"

definition addReaction :: "user option \<Rightarrow> bool \<Rightarrow> message list \<Rightarrow> user \<Rightarrow> session \<Rightarrow> session" where
  "addReaction cuH mounted msgs cu s =
     (if \<not> mounted then s
      else case find (\<lambda>msg. senderId msg = user_id cu) (rev msgs) of
             None \<Rightarrow> s
           | Some userMessage \<Rightarrow>
               let emojiIndex = length (message_text userMessage) mod length emojis
               in handleEmojiReaction cuH (message_id userMessage) (emojis ! emojiIndex) s)"

definition sendReply :: "reading \<Rightarrow> bool \<Rightarrow> user \<Rightarrow> message list \<Rightarrow> user \<Rightarrow> session \<Rightarrow> session" where
  "sendReply rd mounted respondingUser msgs cu s =
     (if \<not> mounted then s
      else
        let s1 = updateUserTypingStatus (user_id respondingUser) False s;
            responseIndex = length msgs mod length responses;
            responseText = responses ! responseIndex;
            newMessage = \<lparr>message_id = str ''msg-response-'' @ numberToString (now rd),
                          senderId = user_id respondingUser, message_text = responseText,
                          timestamp = now rd, reactions = Map.empty, message_status = Sent\<rparr>;
            s2 = s1\<lparr>messages := messages s1 @ [newMessage]\<rparr>
        in if length msgs mod 3 = 0
           then s2\<lparr>timers := timers s2 @ [(1500, AddReaction mounted msgs cu)]\<rparr>
           else s2)"

fun fire :: "user option \<Rightarrow> reading \<Rightarrow> callback \<Rightarrow> session \<Rightarrow> session" where
  "fire cuH rd (TypingStart mounted respondingUserId) s = typingStart mounted respondingUserId s"
| "fire cuH rd (SendReply mounted respondingUser msgs cu) s =
     sendReply rd mounted respondingUser msgs cu s"
| "fire cuH rd (AddReaction mounted msgs cu) s = addReaction cuH mounted msgs cu s"
| "fire cuH rd (RestoreScroll present prevScrollPosition prevScrollHeight) s =
     restoreScroll present prevScrollPosition prevScrollHeight s"
| "fire cuH rd ScrollToEnd s =
     (if chatContainer s \<noteq> None then s\<lparr>scrollRequests := scrollRequests s @ [RevealEnd]\<rparr> else s)"
| "fire cuH rd ClearCurrentUser s = s\<lparr>currentUser := None\<rparr>"
| "fire cuH rd FocusInput s = s"

section \<open>Sending\<close>

text \<open>
  \<open>handleSendMessage\<close> of the component, and the handler of the input box that calls it.
  Neither has a \<open>throw\<close>; the first component of the input box handler's result is the
  error it reports to its caller, which is none on every path.
\<close>

datatype error = ValidationError

definition handleSendMessage :: "reading \<Rightarrow> jsstring \<Rightarrow> session \<Rightarrow> session" where
  "handleSendMessage rd messageText s =
     (case currentUser s of
        None \<Rightarrow> s
      | Some cu \<Rightarrow>
          if \<not> isMounted s then s
          else
            let messageId = str ''msg-'' @ numberToString (now rd) @ str ''-''
                              @ numberToString (int (random rd));
                newMessage = \<lparr>message_id = messageId, senderId = user_id cu,
                              message_text = messageText, timestamp = now rd,
                              reactions = Map.empty, message_status = Sent\<rparr>;
                s1 = s\<lparr>messages := messages s @ [newMessage]\<rparr>;
                s2 = (if typingTimeout s \<noteq> None then s1\<lparr>typingTimeout := None\<rparr> else s1);
                s3 = s2\<lparr>appIsTyping := False\<rparr>;
                s4 = updateUserTypingStatus (user_id cu) False s3;
                s5 = scrollToBottom s4
            in simulateResponse s rd s5)"

definition ChatInput_handleSendMessage ::
  "reading \<Rightarrow> chat_input \<Rightarrow> session \<Rightarrow> error option \<times> chat_input \<times> session" where
  "ChatInput_handleSendMessage rd ci s =
     (if trim (localInputMessage ci) \<noteq> [] \<and> currentUser s \<noteq> None
      then
        let s1 = handleSendMessage rd (localInputMessage ci) s;
            ci1 = ci\<lparr>localInputMessage := [], localIsTyping := False,
                     localTypingTimeoutRef := None\<rparr>
        in (None, ci1, s1\<lparr>timers := timers s1 @ [(0, FocusInput)]\<rparr>)
      else (None, ci, s))"

section \<open>Reachable states\<close>

text \<open>
  The states the component can be in: it starts at \<open>initialSession\<close>, is mounted once, and
  then runs a handler on a user action (the login box is shown while there is no current
  user), or a pending timer or frame callback. The reaction handler runs with the current
  user of the first render, both on a click and from the simulator's callback. Both
  logouts are steps, one for each source file.

  Two rules admit more than the page delivers. The geometry of \<open>chatContainer\<close> is the
  browser's, and the last rule lets it take any values and lets the scroll listener run;
  in the page the listener sits on the column inside the scrolling element, which has no
  overflow of its own. The rule \<open>jump\<close> lets \<open>handleScrollToBottom\<close> run, which the page
  binds to no element. What is proved of every reachable state therefore holds of every
  state of the component, and the example sessions below are reached without either rule.
\<close>

inductive reachable :: "session \<Rightarrow> bool" where
  start: "reachable initialSession"
| mounted: "reachable s \<Longrightarrow> \<not> isMounted s \<Longrightarrow> reachable (mount rd s)"
| login: "reachable s \<Longrightarrow> currentUser s = None \<Longrightarrow> reachable (LoginInput_handleLogin rd name s)"
| logout: "reachable s \<Longrightarrow> reachable (handleLogout s)"
| logoutNow: "reachable s \<Longrightarrow> reachable (handleLogoutNow s)"
| send: "reachable s \<Longrightarrow> reachable (snd (snd (ChatInput_handleSendMessage rd ci s)))"
| react: "reachable s \<Longrightarrow>
          reachable (handleEmojiReaction (currentUser initialSession) messageId emoji s)"
| status: "reachable s \<Longrightarrow> reachable (changeUserStatus rd st s)"
| frame: "reachable s \<Longrightarrow> reachable (statusAnimationFrame s)"
| search: "reachable s \<Longrightarrow> reachable (performSearch query s)"
| navigate: "reachable s \<Longrightarrow> reachable (navigateSearch dir s)"
| jump: "reachable s \<Longrightarrow> reachable (handleScrollToBottom s)"
| timer: "reachable s \<Longrightarrow> (d, cb) \<in> set (timers s) \<Longrightarrow>
          reachable (fire (currentUser initialSession) rd cb
                       (s\<lparr>timers := remove1 (d, cb) (timers s)\<rparr>))"
| scroll: "reachable s \<Longrightarrow> reachable (handleScroll (s\<lparr>chatContainer := Some el\<rparr>))"

section \<open>Example sessions\<close>

text \<open>
  Clock readings of one evening (22:13:20 and later, with the matching epoch times) and
  the session in which Dana has logged in after the component was mounted.
\<close>

definition tMount :: reading where
  "tMount = \<lparr>now = 1700000000000, getHours = 22, getMinutes = 13, getSeconds = 20, random = 0\<rparr>"

definition tLogin :: reading where
  "tLogin = \<lparr>now = 1700000001000, getHours = 22, getMinutes = 13, getSeconds = 21, random = 0\<rparr>"

definition tSend1 :: reading where
  "tSend1 = \<lparr>now = 1700000004000, getHours = 22, getMinutes = 13, getSeconds = 24, random = 417\<rparr>"

definition tSend2 :: reading where
  "tSend2 = \<lparr>now = 1700000007000, getHours = 22, getMinutes = 13, getSeconds = 27, random = 52\<rparr>"

definition tReply :: reading where
  "tReply = \<lparr>now = 1700000010000, getHours = 22, getMinutes = 13, getSeconds = 30, random = 0\<rparr>"

definition dana :: user where
  "dana = \<lparr>user_id = str ''user-dana-1700000001000'', user_name = str ''Dana'',
            avatar = str ''https://randomuser.me/api/portraits/men/4.jpg'',
            user_status = Online, lastSeen = None, isTyping = False\<rparr>"

definition sDana :: session where
  "sDana = LoginInput_handleLogin tLogin (str ''Dana'') (mount tMount initialSession)"

definition typed :: "jsstring \<Rightarrow> chat_input" where
  "typed body = \<lparr>localInputMessage = body, localIsTyping = True, localTypingTimeoutRef = Some 1\<rparr>"

text \<open>
  Dana sends \<open>hi\<close> at 22:13:24 and \<open>again\<close> at 22:13:27; both sends schedule a reply.
  The two reply callbacks then run at the same clock reading, 22:13:30, the first one
  late.
\<close>

definition sSent1 :: session where
  "sSent1 = snd (snd (ChatInput_handleSendMessage tSend1 (typed (str ''hi'')) sDana))"

definition sSent2 :: session where
  "sSent2 = snd (snd (ChatInput_handleSendMessage tSend2 (typed (str ''again'')) sSent1))"

definition reply1 :: callback where
  "reply1 = SendReply True (mockUsers tMount ! 1) (messages sDana) dana"

definition reply2 :: callback where
  "reply2 = SendReply True (mockUsers tMount ! 1) (messages sSent1) dana"

definition sReply1 :: session where
  "sReply1 = fire None tReply reply1 (sSent2\<lparr>timers := remove1 (3000, reply1) (timers sSent2)\<rparr>)"

definition sReply2 :: session where
  "sReply2 = fire None tReply reply2 (sReply1\<lparr>timers := remove1 (3000, reply2) (timers sReply1)\<rparr>)"

text \<open>
  The second reply is built on a log of nine messages, so it schedules the reaction
  callback, which runs 1500 ms later.
\<close>

definition tReact :: reading where
  "tReact = \<lparr>now = 1700000011500, getHours = 22, getMinutes = 13, getSeconds = 31, random = 0\<rparr>"

definition reaction2 :: callback where
  "reaction2 = AddReaction True (messages sSent1) dana"

definition sReacted :: session where
  "sReacted = fire (currentUser initialSession) tReact reaction2
                (sReply2\<lparr>timers := remove1 (1500, reaction2) (timers sReply2)\<rparr>)"

text \<open>
  After the first send Dana logs out, and the logout timer runs before the simulator's
  callbacks do.
\<close>

definition tLogout :: reading where
  "tLogout = \<lparr>now = 1700000004200, getHours = 22, getMinutes = 13, getSeconds = 24, random = 0\<rparr>"

definition tTyping :: reading where
  "tTyping = \<lparr>now = 1700000005000, getHours = 22, getMinutes = 13, getSeconds = 25, random = 0\<rparr>"

definition sOut :: session where
  "sOut = fire None tLogout ClearCurrentUser
            ((handleLogout sSent1)
               \<lparr>timers := remove1 (150, ClearCurrentUser) (timers (handleLogout sSent1))\<rparr>)"

text \<open>
  A roster with seven candidates: the two seeded users that are online and five
  participants who logged in before Dana (a roster entry stays online after logout).
  The clock reads 01:00:00.
\<close>

definition peer :: "jsstring \<Rightarrow> user" where
  "peer n = \<lparr>user_id = str ''user-'' @ n @ str ''-1699990000000'', user_name = n,
             avatar = str ''https://randomuser.me/api/portraits/men/3.jpg'',
             user_status = Online, lastSeen = None, isTyping = False\<rparr>"

definition sSeven :: session where
  "sSeven = sDana\<lparr>users := mockUsers tMount
                       @ [peer (str ''ann''), peer (str ''bob''), peer (str ''cyd''),
                          peer (str ''dee''), peer (str ''eve'')]
                       @ [dana]\<rparr>"

definition tOne :: reading where
  "tOne = \<lparr>now = 1700010000000, getHours = 1, getMinutes = 0, getSeconds = 0, random = 0\<rparr>"

text \<open>The specification's index for the responder: the minute of the day.\<close>

definition minuteOfDay :: "reading \<Rightarrow> nat" where
  "minuteOfDay rd = getHours rd * 60 + getMinutes rd"

text \<open>Status requests 100 ms and 300 ms after the one at 22:13:24.\<close>

definition tStatus2 :: reading where
  "tStatus2 = \<lparr>now = 1700000004100, getHours = 22, getMinutes = 13, getSeconds = 24, random = 0\<rparr>"

definition tStatus3 :: reading where
  "tStatus3 = \<lparr>now = 1700000004300, getHours = 22, getMinutes = 13, getSeconds = 24, random = 0\<rparr>"

definition sBusy :: session where
  "sBusy = statusAnimationFrame (changeUserStatus tSend1 Busy sDana)"

text \<open>
  Dana sends the three Greek capitals alpha, sigma, alpha and then searches for the two
  capitals alpha, sigma.
\<close>

definition greekText :: jsstring where
  "greekText = [913, 931, 913]"

definition greekQuery :: jsstring where
  "greekQuery = [913, 931]"

definition sGreek :: session where
  "sGreek = snd (snd (ChatInput_handleSendMessage tSend1 (typed greekText) sDana))"

section \<open>Evaluation of the example sessions\<close>

lemma str_simps: "str [] = []" "str (c # cs) = of_char c # str cs"
  by (simp_all add: str_def)

lemma str_eq_iff [simp]: "(str a = str b) = (a = b)"
proof (induction a arbitrary: b)
  case Nil
  then show ?case by (cases b) (simp_all add: str_def)
next
  case (Cons c cs)
  then show ?case by (cases b) (simp_all add: str_simps)
qed

lemma length_str [simp]: "length (str a) = length a"
  by (simp add: str_def)

lemma str_append: "str (a @ b) = str a @ str b"
  by (simp add: str_def)

lemmas string_eval = trim_def isWhiteSpace_def toLowerCase_def toLowerChar_def
  isCased_def isCaseIgnorable_def replaceWhiteSpaceRuns_def numberToString_def digitChar_def
  str_simps

lemma sDana_eq:
  "sDana = (mount tMount initialSession)\<lparr>currentUser := Some dana, users := mockUsers tMount @ [dana]\<rparr>"
  by (simp add: sDana_def LoginInput_handleLogin_def handleLoginSubmit_def mount_def
        initialSession_def tLogin_def dana_def Let_def string_eval)

lemma reachable_sDana: "reachable sDana"
  unfolding sDana_def
  by (intro reachable.login reachable.mounted reachable.start)
     (simp_all add: initialSession_def mount_def)

lemma first_render_user: "currentUser initialSession = None"
  by (simp add: initialSession_def)

lemma reachable_fire:
  "reachable s \<Longrightarrow> (d, cb) \<in> set (timers s) \<Longrightarrow>
     reachable (fire None rd cb (s\<lparr>timers := remove1 (d, cb) (timers s)\<rparr>))"
  using reachable.timer [of s d cb rd] by (simp add: first_render_user)

lemma messages_sDana: "messages sDana = mockMessages tMount"
  by (simp add: sDana_eq mount_def)

lemma users_sDana: "users sDana = mockUsers tMount @ [dana]"
  by (simp add: sDana_eq)

section \<open>Shared facts about the handlers\<close>

lemma simulateResponse_frame:
  "messages (simulateResponse r rd s) = messages s"
  "users (simulateResponse r rd s) = users s"
  "currentUser (simulateResponse r rd s) = currentUser s"
  "isMounted (simulateResponse r rd s) = isMounted s"
  by (simp_all add: simulateResponse_def Let_def split: option.splits)

lemma sDana_state: "currentUser sDana = Some dana" "isMounted sDana"
  by (simp_all add: sDana_eq mount_def)

lemma ChatInput_handleSendMessage_accepts:
  assumes "trim (localInputMessage ci) \<noteq> []" and "currentUser s = Some cu" and "isMounted s"
  shows "snd (snd (ChatInput_handleSendMessage rd ci s)) =
           (simulateResponse s rd
              (s\<lparr>messages := messages s @
                    [\<lparr>message_id = str ''msg-'' @ numberToString (now rd) @ str ''-''
                                     @ numberToString (int (random rd)),
                      senderId = user_id cu, message_text = localInputMessage ci,
                      timestamp = now rd, reactions = Map.empty, message_status = Sent\<rparr>],
                 typingTimeout := None, appIsTyping := False,
                 users := map (\<lambda>u. if user_id u = user_id cu then u\<lparr>isTyping := False\<rparr> else u)
                            (users s),
                 timers := timers s @ [(0, ScrollToEnd)]\<rparr>))
           \<lparr>timers := timers (simulateResponse s rd
                        (s\<lparr>timers := timers s @ [(0, ScrollToEnd)]\<rparr>)) @ [(0, FocusInput)]\<rparr>"
  using assms
  by (cases "typingTimeout s")
     (auto simp: ChatInput_handleSendMessage_def handleSendMessage_def Let_def scrollToBottom_def
        updateUserTypingStatus_def simulateResponse_def split: option.splits)

lemma handleSendMessage_state:
  "isMounted (handleSendMessage rd body s) = isMounted s"
  "currentUser (handleSendMessage rd body s) = currentUser s"
  by (simp_all add: handleSendMessage_def Let_def simulateResponse_frame scrollToBottom_def
        updateUserTypingStatus_def split: option.splits)

lemma handleEmojiReaction_state:
  "isMounted (handleEmojiReaction cu mid e s) = isMounted s"
  "currentUser (handleEmojiReaction cu mid e s) = currentUser s"
  by (simp_all add: handleEmojiReaction_def Let_def split: option.splits)

lemma fire_isMounted: "isMounted (fire cuH rd cb s) = isMounted s"
  by (cases cb)
     (simp_all add: typingStart_def sendReply_def addReaction_def restoreScroll_def
        updateUserTypingStatus_def handleEmojiReaction_state Let_def split: option.splits)

lemma fire_currentUser: "currentUser (fire cuH rd cb s) \<noteq> None \<Longrightarrow> currentUser s \<noteq> None"
  by (cases cb)
     (simp_all add: typingStart_def sendReply_def addReaction_def restoreScroll_def
        updateUserTypingStatus_def handleEmojiReaction_state Let_def split: option.splits if_splits)

lemma reachable_mounted: "reachable s \<Longrightarrow> currentUser s \<noteq> None \<Longrightarrow> isMounted s"
proof (induction rule: reachable.induct)
  case start
  then show ?case by (simp add: initialSession_def)
next
  case (mounted s rd)
  then show ?case by (simp add: mount_def)
next
  case (login s rd name)
  then show ?case
    by (simp add: LoginInput_handleLogin_def handleLoginSubmit_def Let_def split: if_splits)
next
  case (logout s)
  then show ?case by (simp add: handleLogout_def)
next
  case (logoutNow s)
  then show ?case by (simp add: handleLogoutNow_def)
next
  case (send s rd ci)
  then show ?case
    by (simp add: ChatInput_handleSendMessage_def Let_def handleSendMessage_state split: if_splits)
next
  case (react s messageId emoji)
  then show ?case by (simp add: handleEmojiReaction_state)
next
  case (status s rd st)
  then show ?case by (simp add: changeUserStatus_def split: option.splits if_splits)
next
  case (frame s)
  then show ?case by (auto simp: statusAnimationFrame_def split: option.splits prod.splits)
next
  case (search s query)
  then show ?case by (simp add: performSearch_def Let_def split: if_splits)
next
  case (navigate s dir)
  then show ?case by (simp add: navigateSearch_def Let_def split: if_splits)
next
  case (jump s)
  then show ?case by (simp add: handleScrollToBottom_def scrollToBottom_def)
next
  case (timer s d cb rd)
  from timer.prems have "currentUser (s\<lparr>timers := remove1 (d, cb) (timers s)\<rparr>) \<noteq> None"
    by (rule fire_currentUser)
  with timer.IH show ?case by (simp add: fire_isMounted)
next
  case (scroll s el)
  then show ?case by (simp add: handleScroll_def)
qed

lemma handleSendMessage_messages:
  assumes "currentUser s = Some cu" and "isMounted s"
  shows "messages (handleSendMessage rd body s) =
           messages s @ [\<lparr>message_id = str ''msg-'' @ numberToString (now rd) @ str ''-''
                                          @ numberToString (int (random rd)),
                          senderId = user_id cu, message_text = body, timestamp = now rd,
                          reactions = Map.empty, message_status = Sent\<rparr>]"
    and "users (handleSendMessage rd body s) =
           map (\<lambda>u. if user_id u = user_id cu then u\<lparr>isTyping := False\<rparr> else u) (users s)"
  using assms
  by (simp_all add: handleSendMessage_def Let_def simulateResponse_frame scrollToBottom_def
        updateUserTypingStatus_def)

section \<open>Properties of search\<close>

lemma stringIncludes_sublist: "stringIncludes t q = sublist q t"
  by (induction t) (simp_all add: sublist_Cons_right)

lemma lowerFrom_map: "931 \<notin> set s \<Longrightarrow> lowerFrom before s = map toLowerChar s"
  by (induction s arbitrary: before) simp_all

lemma latin1_append [simp]: "latin1 (a @ b) = (latin1 a \<and> latin1 b)"
  by (simp add: latin1_def)

lemma latin1_Cons [simp]: "latin1 (c # cs) = (c < 256 \<and> latin1 cs)"
  by (simp add: latin1_def)

lemma latin1_Nil [simp]: "latin1 []"
  by (simp add: latin1_def)

lemma toLowerCase_latin1: "latin1 s \<Longrightarrow> toLowerCase s = map toLowerChar s"
proof -
  assume "latin1 s"
  then have "931 \<notin> set s" by (induction s) auto
  then show ?thesis by (simp add: toLowerCase_def lowerFrom_map)
qed

lemma toLowerChar_sameLetter:
  "x < 256 \<Longrightarrow> y < 256 \<Longrightarrow> (toLowerChar x = toLowerChar y) = sameLetter x y"
  by (auto simp: toLowerChar_def sameLetter_def capitalLetters_def)

lemma map_toLowerChar_sameLetter:
  "latin1 a \<Longrightarrow> latin1 b \<Longrightarrow> (map toLowerChar a = map toLowerChar b) = list_all2 sameLetter a b"
proof (induction a arbitrary: b)
  case Nil
  then show ?case by auto
next
  case (Cons x xs)
  then show ?case by (cases b) (auto simp: toLowerChar_sameLetter)
qed

lemma sameLetter_length: "list_all2 sameLetter a b \<Longrightarrow> length a = length b"
  by (rule list_all2_lengthD)

lemma stringIncludes_toLowerCase:
  assumes "latin1 q" and "latin1 t"
  shows "stringIncludes (toLowerCase t) (toLowerCase q) = occursIgnoringCase q t"
proof
  assume "stringIncludes (toLowerCase t) (toLowerCase q)"
  with assms obtain ps ss where eq: "map toLowerChar t = ps @ map toLowerChar q @ ss"
    by (auto simp: stringIncludes_sublist sublist_def toLowerCase_latin1)
  then obtain before rest where t: "t = before @ rest"
    and r: "map toLowerChar q @ ss = map toLowerChar rest"
    unfolding map_eq_append_conv by blast
  from r obtain part after where p: "rest = part @ after"
    and m: "map toLowerChar part = map toLowerChar q"
    unfolding append_eq_map_conv by metis
  from assms(2) t p have "latin1 part" by simp
  with m assms(1) have "list_all2 sameLetter part q"
    by (simp add: map_toLowerChar_sameLetter)
  with t p show "occursIgnoringCase q t"
    unfolding occursIgnoringCase_def by blast
next
  assume "occursIgnoringCase q t"
  then obtain before part after where t: "t = before @ part @ after"
    and l: "list_all2 sameLetter part q"
    unfolding occursIgnoringCase_def by blast
  from assms(2) t have "latin1 part" by simp
  with l assms(1) have "map toLowerChar part = map toLowerChar q"
    by (simp add: map_toLowerChar_sameLetter)
  with t have "map toLowerChar t = map toLowerChar before @ map toLowerChar q @ map toLowerChar after"
    by simp
  with assms show "stringIncludes (toLowerCase t) (toLowerCase q)"
    unfolding stringIncludes_sublist sublist_def by (simp add: toLowerCase_latin1) blast
qed

text \<open>
  C7, as the code has it. A query that does not trim to the empty string selects, in log
  order, the messages whose lower-cased text includes the lower-cased query. When the
  query and the texts of the log are ASCII or Latin-1 strings these are exactly the
  messages in whose text the query occurs ignoring case. A query that trims to the empty
  string gives no results and the index \<open>-1\<close> (the code's "no cursor"), whatever the
  search state was before; and when there are results the index is \<open>0\<close>, the first match.
\<close>

theorem performSearch_matches:
  "(latin1 query \<and> list_all (\<lambda>m. latin1 (message_text m)) (messages s) \<and> trim query \<noteq> [] \<longrightarrow>
      searchResults (performSearch query s) =
        filter (\<lambda>m. occursIgnoringCase query (message_text m)) (messages s))
   \<and> (trim query \<noteq> [] \<longrightarrow>
      searchResults (performSearch query s) =
        filter (\<lambda>m. stringIncludes (toLowerCase (message_text m)) (toLowerCase query)) (messages s))
   \<and> (trim query = [] \<longrightarrow>
      searchResults (performSearch query s) = [] \<and> currentSearchIndex (performSearch query s) = - 1)
   \<and> (searchResults (performSearch query s) \<noteq> [] \<longrightarrow>
      currentSearchIndex (performSearch query s) = 0)"
proof -
  have a: "latin1 query \<and> list_all (\<lambda>m. latin1 (message_text m)) (messages s) \<and> trim query \<noteq> [] \<longrightarrow>
      searchResults (performSearch query s) =
        filter (\<lambda>m. occursIgnoringCase query (message_text m)) (messages s)"
  proof (intro impI, elim conjE)
    assume q: "latin1 query" and l: "list_all (\<lambda>m. latin1 (message_text m)) (messages s)"
      and t: "trim query \<noteq> []"
    have "filter (\<lambda>m. stringIncludes (toLowerCase (message_text m)) (toLowerCase query)) (messages s)
            = filter (\<lambda>m. occursIgnoringCase query (message_text m)) (messages s)"
      using l q by (intro filter_cong) (auto simp: list_all_iff stringIncludes_toLowerCase)
    with t show "searchResults (performSearch query s) =
        filter (\<lambda>m. occursIgnoringCase query (message_text m)) (messages s)"
      by (simp add: performSearch_def Let_def)
  qed
  have b: "(trim query \<noteq> [] \<longrightarrow>
      searchResults (performSearch query s) =
        filter (\<lambda>m. stringIncludes (toLowerCase (message_text m)) (toLowerCase query)) (messages s))
   \<and> (trim query = [] \<longrightarrow>
      searchResults (performSearch query s) = [] \<and> currentSearchIndex (performSearch query s) = - 1)
   \<and> (searchResults (performSearch query s) \<noteq> [] \<longrightarrow>
      currentSearchIndex (performSearch query s) = 0)"
    by (auto simp: performSearch_def Let_def)
  show ?thesis by (rule conjI [OF a b])
qed

lemma search_help_ids:
  "map message_id (searchResults (performSearch (str ''HELP'') sDana)) = [str ''msg5'', str ''msg6'']"
  by (simp add: performSearch_def sDana_eq mount_def mockMessages_def initialSession_def string_eval)

lemma latin1_mockMessages: "list_all (\<lambda>m. latin1 (message_text m)) (mockMessages rd)"
  by (simp add: mockMessages_def str_simps)

theorem performSearch_matches_witness:
  "latin1 (str ''HELP'') \<and> trim (str ''HELP'') \<noteq> []
   \<and> searchResults (performSearch (str ''HELP'') sDana)
       = filter (\<lambda>m. occursIgnoringCase (str ''HELP'') (message_text m)) (messages sDana)
   \<and> map message_id (searchResults (performSearch (str ''HELP'') sDana)) = [str ''msg5'', str ''msg6'']
   \<and> currentSearchIndex (performSearch (str ''HELP'') sDana) = 0
   \<and> trim (str ''   '') = []
   \<and> searchResults (performSearch (str ''   '') (performSearch (str ''HELP'') sDana)) = []
   \<and> currentSearchIndex (performSearch (str ''   '') (performSearch (str ''HELP'') sDana)) = - 1"
proof -
  have q: "latin1 (str ''HELP'')" by (simp add: str_simps)
  have l: "list_all (\<lambda>m. latin1 (message_text m)) (messages sDana)"
    by (simp add: messages_sDana latin1_mockMessages)
  have t: "trim (str ''HELP'') \<noteq> []" by (simp add: string_eval)
  have b: "trim (str ''   '') = []" by (simp add: string_eval)
  have n: "searchResults (performSearch (str ''HELP'') sDana) \<noteq> []"
    using search_help_ids by auto
  from q l t b n search_help_ids performSearch_matches [of "str ''HELP''" sDana]
    performSearch_matches [of "str ''   ''" "performSearch (str ''HELP'') sDana"]
  show ?thesis by simp
qed

lemma lower_greek:
  "toLowerCase greekText = [945, 963, 945]" "toLowerCase greekQuery = [945, 962]"
  by (simp_all add: greekText_def greekQuery_def toLowerCase_def toLowerChar_def isCased_def
        isCaseIgnorable_def)

lemma toLowerChar_latin1: "c < 256 \<Longrightarrow> toLowerChar c < 288"
  by (auto simp: toLowerChar_def)

lemma latin1_no_greek:
  assumes "latin1 t"
  shows "\<not> stringIncludes (toLowerCase t) (toLowerCase greekQuery)"
proof
  assume "stringIncludes (toLowerCase t) (toLowerCase greekQuery)"
  then have "sublist [945, 962] (map toLowerChar t)"
    using assms by (simp add: stringIncludes_sublist lower_greek toLowerCase_latin1)
  then have "set [945, 962] \<subseteq> set (map toLowerChar t)"
    by (rule set_mono_sublist)
  then obtain c where "c \<in> set t" and "toLowerChar c = 945" by auto
  moreover from assms \<open>c \<in> set t\<close> have "c < 256" by (simp add: latin1_def list_all_iff)
  ultimately show False using toLowerChar_latin1 [of c] by simp
qed

lemma messages_sGreek:
  "messages sGreek = messages sDana @
      [\<lparr>message_id = str ''msg-'' @ numberToString (now tSend1) @ str ''-''
                       @ numberToString (int (random tSend1)),
        senderId = user_id dana, message_text = greekText, timestamp = now tSend1,
        reactions = Map.empty, message_status = Sent\<rparr>]"
proof -
  have t: "trim (localInputMessage (typed greekText)) \<noteq> []"
    by (simp add: typed_def greekText_def trim_def isWhiteSpace_def)
  show ?thesis
    unfolding sGreek_def ChatInput_handleSendMessage_accepts [OF t sDana_state]
    by (simp add: simulateResponse_frame typed_def)
qed

text \<open>
  Dana's log holds a message whose text is the capitals alpha, sigma, alpha. The query
  alpha, sigma occurs in it as it stands, yet the search finds nothing: the query is
  lowered to alpha, final sigma and the text to alpha, sigma, alpha.
\<close>

theorem final_sigma_counterexample:
  "reachable sGreek
   \<and> message_text (last (messages sGreek)) = greekText
   \<and> greekText = greekQuery @ [913]
   \<and> occursIgnoringCase greekQuery greekText
   \<and> trim greekQuery \<noteq> []
   \<and> searchResults (performSearch greekQuery sGreek) = []
   \<and> currentSearchIndex (performSearch greekQuery sGreek) = - 1"
proof -
  have r: "reachable sGreek"
    unfolding sGreek_def by (rule reachable.send) (rule reachable_sDana)
  have v: "greekText = greekQuery @ [913]" by (simp add: greekText_def greekQuery_def)
  have "list_all2 sameLetter greekQuery greekQuery"
    by (simp add: greekQuery_def sameLetter_def)
  with v have o: "occursIgnoringCase greekQuery greekText"
    unfolding occursIgnoringCase_def by (intro exI [of _ "[]"] exI [of _ greekQuery] exI [of _ "[913]"]) simp
  have t: "trim greekQuery \<noteq> []" by (simp add: greekQuery_def trim_def isWhiteSpace_def)
  have g: "\<not> stringIncludes (toLowerCase greekText) (toLowerCase greekQuery)"
    by (simp add: lower_greek)
  have m: "\<forall>m \<in> set (messages sDana). \<not> stringIncludes (toLowerCase (message_text m)) (toLowerCase greekQuery)"
    using latin1_mockMessages [of tMount]
    by (auto simp: messages_sDana list_all_iff latin1_no_greek)
  from g m have f: "filter (\<lambda>m. stringIncludes (toLowerCase (message_text m)) (toLowerCase greekQuery))
                      (messages sGreek) = []"
    by (simp add: messages_sGreek filter_empty_conv)
  from t f have "searchResults (performSearch greekQuery sGreek) = []"
    and "currentSearchIndex (performSearch greekQuery sGreek) = - 1"
    by (simp_all add: performSearch_def Let_def)
  with r v o t show ?thesis by (simp add: messages_sGreek)
qed

section \<open>Properties of sending\<close>

text \<open>
  C1. In every reachable state with a current user, sending a text whose trim is not empty
  appends exactly one message at the end of the log: it carries exactly that text, the
  status \<open>Sent\<close>, no reactions and the current user as sender; the log is one longer,
  the earlier messages are the same in the same order, and every roster entry with the
  sender's id has its typing flag cleared.
\<close>

theorem send_appends_message:
  assumes "reachable s" and "currentUser s = Some cu" and "trim body \<noteq> []"
    and "localInputMessage ci = body"
  shows "(\<exists>m. messages (snd (snd (ChatInput_handleSendMessage rd ci s))) = messages s @ [m]
            \<and> message_text m = body \<and> message_status m = Sent \<and> reactions m = Map.empty
            \<and> senderId m = user_id cu)
       \<and> length (messages (snd (snd (ChatInput_handleSendMessage rd ci s)))) = length (messages s) + 1
       \<and> take (length (messages s)) (messages (snd (snd (ChatInput_handleSendMessage rd ci s))))
           = messages s
       \<and> users (snd (snd (ChatInput_handleSendMessage rd ci s)))
           = map (\<lambda>u. if user_id u = user_id cu then u\<lparr>isTyping := False\<rparr> else u) (users s)
       \<and> (\<forall>u \<in> set (users (snd (snd (ChatInput_handleSendMessage rd ci s)))).
             user_id u = user_id cu \<longrightarrow> \<not> isTyping u)"
proof -
  from assms(1,2) have mnt: "isMounted s" by (simp add: reachable_mounted)
  note sent = handleSendMessage_messages [OF assms(2) mnt, of rd body]
  from assms(2,3,4) sent show ?thesis
    by (auto simp: ChatInput_handleSendMessage_def Let_def)
qed

theorem send_appends_message_witness:
  "reachable sDana \<and> currentUser sDana = Some dana \<and> trim (str ''hi'') \<noteq> []
   \<and> length (messages (snd (snd (ChatInput_handleSendMessage tSend1 (typed (str ''hi'')) sDana)))) = 9
   \<and> message_text (last (messages (snd (snd (ChatInput_handleSendMessage tSend1 (typed (str ''hi'')) sDana))))) = str ''hi''"
proof -
  have c: "currentUser sDana = Some dana" by (simp add: sDana_eq)
  have t: "trim (str ''hi'') \<noteq> []" by (simp add: string_eval)
  have l: "localInputMessage (typed (str ''hi'')) = str ''hi''" by (simp add: typed_def)
  have n: "length (messages sDana) = 8" by (simp add: sDana_eq mount_def mockMessages_def)
  from send_appends_message[OF reachable_sDana c t l, of tSend1] n reachable_sDana c t
  show ?thesis by auto
qed

section \<open>Properties of rejected sends\<close>

text \<open>
  C2, as the code has it. When the text of the input box trims to the empty string or there
  is no current user, the send handler returns without reporting an error, and the state
  of the input box and of the session are what they were. The handler of the component
  itself also leaves the session alone when there is no current user.
\<close>

theorem send_rejected_silently:
  "trim (localInputMessage ci) = [] \<or> currentUser s = None \<Longrightarrow>
     ChatInput_handleSendMessage rd ci s = (None, ci, s)
     \<and> (currentUser s = None \<longrightarrow> handleSendMessage rd body s = s)"
  by (auto simp: ChatInput_handleSendMessage_def handleSendMessage_def)

theorem send_rejected_silently_witness:
  "trim (localInputMessage (typed (str ''   ''))) = []
   \<and> ChatInput_handleSendMessage tSend1 (typed (str ''   '')) sDana = (None, typed (str ''   ''), sDana)
   \<and> currentUser initialSession = None
   \<and> ChatInput_handleSendMessage tSend1 (typed (str ''hi'')) initialSession = (None, typed (str ''hi''), initialSession)
   \<and> handleSendMessage tSend1 (str ''hi'') initialSession = initialSession"
proof -
  have b: "trim (localInputMessage (typed (str ''   ''))) = []" by (simp add: typed_def string_eval)
  have n: "currentUser initialSession = None" by (simp add: initialSession_def)
  from b n send_rejected_silently [of "typed (str ''   '')" sDana tSend1]
    send_rejected_silently [of "typed (str ''hi'')" initialSession tSend1 "str ''hi''"]
  show ?thesis by simp
qed

text \<open>
  No \<open>ValidationError\<close> reaches the caller: neither for a blank text in Dana's session
  nor for a send before anyone has logged in.
\<close>

theorem send_blank_counterexample:
  "trim (str ''   '') = []
   \<and> fst (ChatInput_handleSendMessage tSend1 (typed (str ''   '')) sDana) \<noteq> Some ValidationError
   \<and> currentUser initialSession = None
   \<and> fst (ChatInput_handleSendMessage tSend1 (typed (str ''hi'')) initialSession) \<noteq> Some ValidationError"
  by (simp add: ChatInput_handleSendMessage_def typed_def initialSession_def string_eval)

section \<open>Properties of the status throttle\<close>

text \<open>
  C5. A status request that arrives less than 300 ms after the last accepted one
  (\<open>lastStatusUpdateRef\<close>) leaves the whole state as it was: nothing is committed, queued
  or recorded. A request for the status the current user already has does the same. A
  request for another status, 300 ms or more after the last accepted one, is accepted: its
  time becomes the last accepted time and its commit is the pending frame callback, which
  sets the status of the current user and of the roster entries with that id.
\<close>

theorem changeUserStatus_throttle:
  "(now rd - lastStatusUpdateRef s < 300 \<longrightarrow> changeUserStatus rd st s = s)
   \<and> (currentUser s = Some cu \<and> user_status cu = st \<longrightarrow> changeUserStatus rd st s = s)
   \<and> (currentUser s = Some cu \<and> user_status cu \<noteq> st \<and> 300 \<le> now rd - lastStatusUpdateRef s \<longrightarrow>
        lastStatusUpdateRef (changeUserStatus rd st s) = now rd
        \<and> statusAnimationRef (changeUserStatus rd st s) = Some (st, user_id cu)
        \<and> currentUser (statusAnimationFrame (changeUserStatus rd st s))
            = Some (cu\<lparr>user_status := st\<rparr>)
        \<and> users (statusAnimationFrame (changeUserStatus rd st s))
            = map (\<lambda>u. if user_id u = user_id cu then u\<lparr>user_status := st\<rparr> else u) (users s)
        \<and> statusAnimationRef (statusAnimationFrame (changeUserStatus rd st s)) = None
        \<and> lastStatusUpdateRef (statusAnimationFrame (changeUserStatus rd st s)) = now rd)"
  by (auto simp: changeUserStatus_def statusAnimationFrame_def split: option.splits)

lemma sBusy_eq:
  "sBusy = sDana\<lparr>currentUser := Some (dana\<lparr>user_status := Busy\<rparr>),
                 users := mockUsers tMount @ [dana\<lparr>user_status := Busy\<rparr>],
                 lastStatusUpdateRef := 1700000004000\<rparr>"
  by (simp add: sBusy_def changeUserStatus_def statusAnimationFrame_def sDana_eq mount_def
        initialSession_def tSend1_def dana_def mockUsers_def)

theorem changeUserStatus_throttle_witness:
  "currentUser sDana = Some dana \<and> user_status dana \<noteq> Busy
   \<and> 300 \<le> now tSend1 - lastStatusUpdateRef sDana
   \<and> currentUser sBusy = Some (dana\<lparr>user_status := Busy\<rparr>)
   \<and> now tStatus2 - lastStatusUpdateRef sBusy < 300
   \<and> changeUserStatus tStatus2 BRB sBusy = sBusy
   \<and> changeUserStatus tStatus3 Busy sBusy = sBusy
   \<and> 300 \<le> now tStatus3 - lastStatusUpdateRef sBusy
   \<and> currentUser (statusAnimationFrame (changeUserStatus tStatus3 BRB sBusy))
       = Some (dana\<lparr>user_status := BRB\<rparr>)"
proof -
  have a: "currentUser sDana = Some dana" "user_status dana \<noteq> Busy"
    "300 \<le> now tSend1 - lastStatusUpdateRef sDana"
    by (simp_all add: sDana_eq dana_def tSend1_def mount_def initialSession_def)
  have b: "currentUser sBusy = Some (dana\<lparr>user_status := Busy\<rparr>)"
    "now tStatus2 - lastStatusUpdateRef sBusy < 300"
    "300 \<le> now tStatus3 - lastStatusUpdateRef sBusy"
    "user_status (dana\<lparr>user_status := Busy\<rparr>) = Busy"
    "user_status (dana\<lparr>user_status := Busy\<rparr>) \<noteq> BRB"
    by (simp_all add: sBusy_eq tStatus2_def tStatus3_def)
  from a b changeUserStatus_throttle [of tSend1 sDana Busy dana]
    changeUserStatus_throttle [of tStatus2 sBusy BRB "dana\<lparr>user_status := Busy\<rparr>"]
    changeUserStatus_throttle [of tStatus3 sBusy Busy "dana\<lparr>user_status := Busy\<rparr>"]
    changeUserStatus_throttle [of tStatus3 sBusy BRB "dana\<lparr>user_status := Busy\<rparr>"]
  show ?thesis by (simp add: sBusy_def)
qed

section \<open>Properties of the response simulator\<close>

lemma simulateResponse_timers:
  assumes "currentUser r = Some cu" and "isMounted r" and "getSeconds rd mod 3 = 0"
    and "respondingUsers cu (users r) \<noteq> []"
  shows "simulateResponse r rd s =
           s\<lparr>timers := timers s @
              [(1000, TypingStart True
                  (user_id (respondingUsers cu (users r)
                              ! (getMinutes rd mod length (respondingUsers cu (users r)))))),
               (3000, SendReply True
                  (respondingUsers cu (users r)
                     ! (getMinutes rd mod length (respondingUsers cu (users r))))
                  (messages r) cu)]\<rparr>"
  using assms by (simp add: simulateResponse_def Let_def)

lemma simulateResponse_silent:
  assumes "currentUser r = None \<or> \<not> isMounted r \<or> getSeconds rd mod 3 \<noteq> 0
             \<or> respondingUsers (the (currentUser r)) (users r) = []"
  shows "simulateResponse r rd s = s"
  using assms by (auto simp: simulateResponse_def Let_def split: option.splits)

lemma timers_changed: "s\<lparr>timers := timers s @ [a, b]\<rparr> \<noteq> s"
proof
  assume "s\<lparr>timers := timers s @ [a, b]\<rparr> = s"
  then have "timers (s\<lparr>timers := timers s @ [a, b]\<rparr>) = timers s" by simp
  then show False by simp
qed

lemma respondingUsers_empty:
  "(respondingUsers cu us = []) = (\<not> (\<exists>u \<in> set us. user_id u \<noteq> user_id cu \<and> user_status u = Online))"
  by (auto simp: respondingUsers_def filter_empty_conv)

text \<open>
  C6, as the code has it. On a send by the current user of a mounted component, the
  simulator responds exactly when the second of the clock is a multiple of three and some
  roster entry other than the current user is online. The responder is then the entry at
  index \<open>getMinutes mod count\<close>, the minute of the hour, in the roster-ordered list of
  those entries; the typing callback is scheduled at 1000 ms and the reply at 3000 ms.
  Otherwise, in particular when the list is empty, the state is left as it was.
\<close>

theorem simulateResponse_decision:
  assumes "currentUser r = Some cu" and "isMounted r"
  shows "((simulateResponse r rd s \<noteq> s) =
            (getSeconds rd mod 3 = 0
             \<and> (\<exists>u \<in> set (users r). user_id u \<noteq> user_id cu \<and> user_status u = Online)))
       \<and> (simulateResponse r rd s \<noteq> s \<longrightarrow>
            simulateResponse r rd s =
              s\<lparr>timers := timers s @
                 [(1000, TypingStart True
                     (user_id (filter (\<lambda>u. user_id u \<noteq> user_id cu \<and> user_status u = Online) (users r)
                        ! (getMinutes rd mod
                             length (filter (\<lambda>u. user_id u \<noteq> user_id cu \<and> user_status u = Online)
                                       (users r)))))),
                  (3000, SendReply True
                     (filter (\<lambda>u. user_id u \<noteq> user_id cu \<and> user_status u = Online) (users r)
                        ! (getMinutes rd mod
                             length (filter (\<lambda>u. user_id u \<noteq> user_id cu \<and> user_status u = Online)
                                       (users r))))
                     (messages r) cu)]\<rparr>)
       \<and> (filter (\<lambda>u. user_id u \<noteq> user_id cu \<and> user_status u = Online) (users r) = [] \<longrightarrow>
            simulateResponse r rd s = s)"
proof (cases "getSeconds rd mod 3 = 0 \<and> respondingUsers cu (users r) \<noteq> []")
  case True
  then have "simulateResponse r rd s \<noteq> s"
    using simulateResponse_timers [OF assms, of rd s] by (simp add: timers_changed)
  moreover from True have "\<exists>u \<in> set (users r). user_id u \<noteq> user_id cu \<and> user_status u = Online"
    by (simp add: respondingUsers_empty)
  ultimately show ?thesis
    using True simulateResponse_timers [OF assms, of rd s]
    by (simp add: respondingUsers_def)
next
  case False
  then have "simulateResponse r rd s = s"
    using assms by (intro simulateResponse_silent) auto
  moreover from False have "\<not> (getSeconds rd mod 3 = 0
       \<and> (\<exists>u \<in> set (users r). user_id u \<noteq> user_id cu \<and> user_status u = Online))"
    by (simp add: respondingUsers_empty)
  ultimately show ?thesis
    using assms simulateResponse_silent [of r rd s] by (auto simp: respondingUsers_def)
qed


lemma respondingUsers_sDana:
  "respondingUsers dana (users sDana) = [mockUsers tMount ! 0, mockUsers tMount ! 1]"
  by (simp add: respondingUsers_def sDana_eq mockUsers_def dana_def)

theorem simulateResponse_decision_witness:
  "currentUser sDana = Some dana \<and> isMounted sDana
   \<and> simulateResponse sDana tSend1 sDana \<noteq> sDana
   \<and> simulateResponse sDana tSend1 sDana =
       sDana\<lparr>timers := timers sDana @
          [(1000, TypingStart True (str ''user2'')),
           (3000, SendReply True (mockUsers tMount ! 1) (messages sDana) dana)]\<rparr>
   \<and> simulateResponse (sDana\<lparr>users := [dana]\<rparr>) tSend1 sDana = sDana"
proof -
  have "(13::nat) mod 2 = 1" by simp
  then have g: "getSeconds tSend1 mod 3 = 0" "getMinutes tSend1 mod Suc (Suc 0) = Suc 0"
    by (simp_all add: tSend1_def numeral_2_eq_2)
  have o: "\<exists>u \<in> set (users sDana). user_id u \<noteq> user_id dana \<and> user_status u = Online"
    by (simp add: sDana_eq mockUsers_def dana_def)
  have f: "filter (\<lambda>u. user_id u \<noteq> user_id dana \<and> user_status u = Online) (users sDana)
             = [mockUsers tMount ! 0, mockUsers tMount ! 1]"
    using respondingUsers_sDana by (simp add: respondingUsers_def)
  have i: "user_id (mockUsers tMount ! Suc 0) = str ''user2''" by (simp add: mockUsers_def)
  have ne: "simulateResponse sDana tSend1 sDana \<noteq> sDana"
    using simulateResponse_decision [OF sDana_state, of tSend1 sDana] g o by simp
  then have eq: "simulateResponse sDana tSend1 sDana =
       sDana\<lparr>timers := timers sDana @
          [(1000, TypingStart True (str ''user2'')),
           (3000, SendReply True (mockUsers tMount ! 1) (messages sDana) dana)]\<rparr>"
    using simulateResponse_decision [OF sDana_state, of tSend1 sDana] g
    by (simp add: f i)
  have "simulateResponse (sDana\<lparr>users := [dana]\<rparr>) tSend1 sDana = sDana"
    using simulateResponse_decision [of "sDana\<lparr>users := [dana]\<rparr>" dana tSend1 sDana]
    by (simp add: sDana_state)
  with ne eq sDana_state show ?thesis by simp
qed

text \<open>
  With seven candidates at 01:00:00 the code takes index \<open>0 mod 7 = 0\<close>, the first seeded
  user; the minute of the day is 60 and \<open>60 mod 7 = 4\<close> names another candidate.
\<close>

theorem responder_minute_of_day_counterexample:
  "currentUser sSeven = Some dana \<and> isMounted sSeven \<and> getSeconds tOne mod 3 = 0
   \<and> length (respondingUsers dana (users sSeven)) = 7
   \<and> timers (simulateResponse sSeven tOne sSeven) =
       timers sSeven @ [(1000, TypingStart True (str ''user1'')),
                        (3000, SendReply True (mockUsers tMount ! 0) (messages sSeven) dana)]
   \<and> respondingUsers dana (users sSeven)
        ! (minuteOfDay tOne mod length (respondingUsers dana (users sSeven))) = peer (str ''cyd'')
   \<and> mockUsers tMount ! 0 \<noteq> peer (str ''cyd'')"
proof -
  have c: "currentUser sSeven = Some dana" "isMounted sSeven"
    by (simp_all add: sSeven_def sDana_state)
  have g: "getSeconds tOne mod 3 = 0" "getMinutes tOne = 0" "minuteOfDay tOne = 60"
    by (simp_all add: tOne_def minuteOfDay_def)
  have r: "respondingUsers dana (users sSeven) =
             [mockUsers tMount ! 0, mockUsers tMount ! 1,
              peer (str ''ann''), peer (str ''bob''), peer (str ''cyd''), peer (str ''dee''),
              peer (str ''eve'')]"
    by (simp add: respondingUsers_def sSeven_def mockUsers_def peer_def dana_def
          str_append [symmetric])
  have t: "timers (simulateResponse sSeven tOne sSeven) =
       timers sSeven @ [(1000, TypingStart True (str ''user1'')),
                        (3000, SendReply True (mockUsers tMount ! 0) (messages sSeven) dana)]"
    using simulateResponse_timers [OF c g(1), of sSeven]
    by (simp add: r g mockUsers_def)
  have d: "mockUsers tMount ! 0 \<noteq> peer (str ''cyd'')"
    by (simp add: mockUsers_def peer_def)
  from c g r t d show ?thesis by simp
qed

section \<open>Properties of the delayed callbacks\<close>

lemma sSent1_fields:
  "currentUser sSent1 = Some dana"
  "isMounted sSent1"
  "users sSent1 = users sDana"
  "timers sSent1 = [(0, ScrollToEnd), (1000, TypingStart True (str ''user2'')), (3000, reply1),
                    (0, FocusInput)]"
  "messages sSent1 = messages sDana @
      [\<lparr>message_id = str ''msg-1700000004000-417'', senderId = user_id dana, message_text = str ''hi'',
        timestamp = 1700000004000, reactions = Map.empty, message_status = Sent\<rparr>]"
proof -
  have t: "trim (localInputMessage (typed (str ''hi''))) \<noteq> []" by (simp add: typed_def string_eval)
  have "(13::nat) mod 2 = 1" by simp
  then have g: "getSeconds tSend1 mod 3 = 0" "getMinutes tSend1 mod Suc (Suc 0) = Suc 0"
    by (simp_all add: tSend1_def numeral_2_eq_2)
  have i: "user_id (mockUsers tMount ! Suc 0) = str ''user2''" by (simp add: mockUsers_def)
  have e: "respondingUsers dana (users sDana) \<noteq> []" by (simp add: respondingUsers_sDana)
  have u: "map (\<lambda>u. if user_id u = user_id dana then u\<lparr>isTyping := False\<rparr> else u) (users sDana)
             = users sDana"
    by (simp add: users_sDana mockUsers_def dana_def)
  have n: "timers sDana = []" by (simp add: sDana_eq mount_def initialSession_def)
  note eq = ChatInput_handleSendMessage_accepts [OF t sDana_state, of tSend1]
  note sim = simulateResponse_timers [OF sDana_state g(1) e]
  show "currentUser sSent1 = Some dana" "isMounted sSent1" "users sSent1 = users sDana"
    by (simp_all add: sSent1_def eq simulateResponse_frame sDana_state u)
  show "timers sSent1 = [(0, ScrollToEnd), (1000, TypingStart True (str ''user2'')), (3000, reply1),
                    (0, FocusInput)]"
    by (simp add: sSent1_def eq sim respondingUsers_sDana g i n reply1_def)
  show "messages sSent1 = messages sDana @
      [\<lparr>message_id = str ''msg-1700000004000-417'', senderId = user_id dana, message_text = str ''hi'',
        timestamp = 1700000004000, reactions = Map.empty, message_status = Sent\<rparr>]"
    unfolding sSent1_def eq
    by (simp add: simulateResponse_frame typed_def tSend1_def string_eval)
qed

lemma reachable_sSent1: "reachable sSent1"
  unfolding sSent1_def by (rule reachable.send) (rule reachable_sDana)

lemma sOut_eq: "sOut = sSent1\<lparr>currentUser := None\<rparr>"
  by (simp add: sOut_def handleLogout_def sSent1_fields)

lemma reachable_sOut: "reachable sOut"
  unfolding sOut_def
  by (intro reachable_fire reachable.logout reachable_sSent1) (simp add: handleLogout_def)


lemma sendReply_fields:
  "messages (sendReply rd True ru msgs lu s) =
     messages s @ [\<lparr>message_id = str ''msg-response-'' @ numberToString (now rd),
                     senderId = user_id ru,
                     message_text = responses ! (length msgs mod length responses),
                     timestamp = now rd, reactions = Map.empty, message_status = Sent\<rparr>]"
  "users (sendReply rd True ru msgs lu s) =
     map (\<lambda>u. if user_id u = user_id ru then u\<lparr>isTyping := False\<rparr> else u) (users s)"
  "timers (sendReply rd True ru msgs lu s) =
     timers s @ (if length msgs mod 3 = 0 then [(1500, AddReaction True msgs lu)] else [])"
  "currentUser (sendReply rd True ru msgs lu s) = currentUser s"
  "isMounted (sendReply rd True ru msgs lu s) = isMounted s"
  by (simp_all add: sendReply_def Let_def updateUserTypingStatus_def)

text \<open>
  C4, as the code has it. The callbacks that the simulator schedules are the typing
  callback at 1000 ms and the reply callback at 3000 ms, and the reply callback schedules
  the reaction callback 1500 ms later; each holds the \<open>isMounted\<close> flag of the render that
  scheduled it, which is true, and that flag is the only thing a fired callback checks.
  So after a logout (no current user in the state) the typing callback still sets the
  responder's typing flag and the reply callback still clears it and appends the reply.
  The reaction callback changes nothing when the \<open>currentUser\<close> read by the reaction
  handler is absent.
\<close>

theorem callbacks_ignore_logout:
  "(currentUser r = Some lu \<and> (d, cb) \<in> set (timers (simulateResponse r rd0 s0))
      \<and> (d, cb) \<notin> set (timers s0) \<longrightarrow>
      (\<exists>ru. (d = 1000 \<and> cb = TypingStart True (user_id ru))
            \<or> (d = 3000 \<and> cb = SendReply True ru (messages r) lu)))
   \<and> ((d, cb) \<in> set (timers (fire cuH rd (SendReply True ru msgs lu) s))
      \<and> (d, cb) \<notin> set (timers s) \<longrightarrow> d = 1500 \<and> cb = AddReaction True msgs lu)
   \<and> (currentUser s = None \<longrightarrow>
        users (fire cuH rd (TypingStart True rid) s)
          = map (\<lambda>u. if user_id u = rid then u\<lparr>isTyping := True\<rparr> else u) (users s)
        \<and> users (fire cuH rd (SendReply True ru msgs lu) s)
          = map (\<lambda>u. if user_id u = user_id ru then u\<lparr>isTyping := False\<rparr> else u) (users s)
        \<and> (\<exists>m. messages (fire cuH rd (SendReply True ru msgs lu) s) = messages s @ [m]
                \<and> senderId m = user_id ru)
        \<and> fire None rd (AddReaction mounted msgs lu) s = s)"
proof -
  have a: "currentUser r = Some lu \<and> (d, cb) \<in> set (timers (simulateResponse r rd0 s0))
      \<and> (d, cb) \<notin> set (timers s0) \<longrightarrow>
      (\<exists>ru. (d = 1000 \<and> cb = TypingStart True (user_id ru))
            \<or> (d = 3000 \<and> cb = SendReply True ru (messages r) lu))"
    by (auto simp: simulateResponse_def Let_def split: if_splits)
  have b: "(d, cb) \<in> set (timers (fire cuH rd (SendReply True ru msgs lu) s))
      \<and> (d, cb) \<notin> set (timers s) \<longrightarrow> d = 1500 \<and> cb = AddReaction True msgs lu"
    by (auto simp: sendReply_fields split: if_splits)
  have c: "fire None rd (AddReaction mounted msgs lu) s = s"
    by (simp add: addReaction_def handleEmojiReaction_def Let_def split: option.splits)
  have e: "currentUser s = None \<longrightarrow>
        users (fire cuH rd (TypingStart True rid) s)
          = map (\<lambda>u. if user_id u = rid then u\<lparr>isTyping := True\<rparr> else u) (users s)
        \<and> users (fire cuH rd (SendReply True ru msgs lu) s)
          = map (\<lambda>u. if user_id u = user_id ru then u\<lparr>isTyping := False\<rparr> else u) (users s)
        \<and> (\<exists>m. messages (fire cuH rd (SendReply True ru msgs lu) s) = messages s @ [m]
                \<and> senderId m = user_id ru)
        \<and> fire None rd (AddReaction mounted msgs lu) s = s"
    using c by (simp add: sendReply_fields typingStart_def updateUserTypingStatus_def)
  show ?thesis by (rule conjI [OF a conjI [OF b e]])
qed

theorem callbacks_ignore_logout_witness:
  "currentUser sDana = Some dana
   \<and> (3000, reply1) \<in> set (timers (simulateResponse sDana tSend1 sDana))
   \<and> (3000, reply1) \<notin> set (timers sDana)
   \<and> currentUser sOut = None
   \<and> users (fire None tTyping (TypingStart True (str ''user2'')) sOut)
       = map (\<lambda>u. if user_id u = str ''user2'' then u\<lparr>isTyping := True\<rparr> else u) (users sOut)
   \<and> (\<exists>m. messages (fire None tReply reply1 sOut) = messages sOut @ [m]
           \<and> senderId m = str ''user2'')
   \<and> fire None tReply (AddReaction True (messages sDana) dana) sOut = sOut"
proof -
  have "(13::nat) mod 2 = 1" by simp
  then have g: "getSeconds tSend1 mod 3 = 0" "getMinutes tSend1 mod Suc (Suc 0) = Suc 0"
    by (simp_all add: tSend1_def numeral_2_eq_2)
  have e: "respondingUsers dana (users sDana) \<noteq> []" by (simp add: respondingUsers_sDana)
  have n: "timers sDana = []" by (simp add: sDana_eq mount_def initialSession_def)
  have i: "(3000, reply1) \<in> set (timers (simulateResponse sDana tSend1 sDana))"
    by (simp add: simulateResponse_timers [OF sDana_state g(1) e] respondingUsers_sDana g
          reply1_def)
  have o: "currentUser sOut = None" by (simp add: sOut_eq)
  have u: "user_id (mockUsers tMount ! 1) = str ''user2''" by (simp add: mockUsers_def)
  from callbacks_ignore_logout
         [of sDana dana 3000 reply1 tSend1 sDana None tReply "mockUsers tMount ! 1"
             "messages sDana" sOut "str ''user2''" True]
    sDana_state i n o u
  show ?thesis by (simp add: reply1_def)
qed

text \<open>
  Dana has logged out after her send. The typing callback of that send is still pending
  and, run at 22:13:25, sets the typing flag of the second seeded user; the reply
  callback, run at 22:13:30, appends a ninth message to the log.
\<close>

theorem callback_after_logout_counterexample:
  "reachable sOut \<and> currentUser sOut = None
   \<and> (1000, TypingStart True (str ''user2'')) \<in> set (timers sOut)
   \<and> (3000, reply1) \<in> set (timers sOut)
   \<and> \<not> isTyping (users sOut ! 1)
   \<and> isTyping (users (fire None tTyping (TypingStart True (str ''user2''))
                         (sOut\<lparr>timers := remove1 (1000, TypingStart True (str ''user2'')) (timers sOut)\<rparr>))
                ! 1)
   \<and> length (messages sOut) = 9
   \<and> length (messages (fire None tReply reply1
                          (sOut\<lparr>timers := remove1 (3000, reply1) (timers sOut)\<rparr>))) = 10"
  using reachable_sOut
  by (simp add: sOut_eq sSent1_fields users_sDana messages_sDana reply1_def
        sendReply_fields typingStart_def updateUserTypingStatus_def mockUsers_def
        mockMessages_def)

section \<open>Message ids\<close>

lemma sSent2_fields:
  "timers sSent2 = timers sSent1 @ [(0, ScrollToEnd), (1000, TypingStart True (str ''user2'')),
                                    (3000, reply2), (0, FocusInput)]"
  "messages sSent2 = messages sSent1 @
      [\<lparr>message_id = str ''msg-1700000007000-52'', senderId = user_id dana,
        message_text = str ''again'', timestamp = 1700000007000, reactions = Map.empty,
        message_status = Sent\<rparr>]"
proof -
  have t: "trim (localInputMessage (typed (str ''again''))) \<noteq> []"
    by (simp add: typed_def string_eval)
  have "(13::nat) mod 2 = 1" by simp
  then have g: "getSeconds tSend2 mod 3 = 0" "getMinutes tSend2 mod Suc (Suc 0) = Suc 0"
    by (simp_all add: tSend2_def numeral_2_eq_2)
  have i: "user_id (mockUsers tMount ! Suc 0) = str ''user2''" by (simp add: mockUsers_def)
  have r: "respondingUsers dana (users sSent1) = [mockUsers tMount ! 0, mockUsers tMount ! 1]"
    by (simp add: sSent1_fields respondingUsers_sDana)
  then have e: "respondingUsers dana (users sSent1) \<noteq> []" by simp
  note eq = ChatInput_handleSendMessage_accepts [OF t sSent1_fields(1,2), of tSend2]
  note sim = simulateResponse_timers [OF sSent1_fields(1,2) g(1) e]
  show "timers sSent2 = timers sSent1 @ [(0, ScrollToEnd), (1000, TypingStart True (str ''user2'')),
                                    (3000, reply2), (0, FocusInput)]"
    by (simp add: sSent2_def eq sim r g i reply2_def)
  show "messages sSent2 = messages sSent1 @
      [\<lparr>message_id = str ''msg-1700000007000-52'', senderId = user_id dana,
        message_text = str ''again'', timestamp = 1700000007000, reactions = Map.empty,
        message_status = Sent\<rparr>]"
    unfolding sSent2_def eq
    by (simp add: simulateResponse_frame typed_def tSend2_def string_eval)
qed

lemma replies_differ: "reply2 \<noteq> reply1"
proof
  assume "reply2 = reply1"
  then have "messages sSent1 = messages sDana" by (simp add: reply1_def reply2_def)
  then have "length (messages sSent1) = length (messages sDana)" by simp
  then show False by (simp add: sSent1_fields)
qed

lemma reply1_pending: "(3000, reply1) \<in> set (timers sSent2)"
  by (simp add: sSent2_fields sSent1_fields)

lemma reply2_pending: "(3000, reply2) \<in> set (timers sReply1)"
proof -
  have "(3000, reply2) \<in> set (remove1 (3000, reply1) (timers sSent2))"
    using replies_differ by (simp add: in_set_remove1 sSent2_fields)
  then show ?thesis
    by (simp add: sReply1_def reply1_def sendReply_fields)
qed

lemma reachable_sReply2: "reachable sReply2"
proof -
  have "reachable sSent2"
    unfolding sSent2_def by (rule reachable.send) (rule reachable_sSent1)
  then have "reachable sReply1"
    unfolding sReply1_def using reply1_pending by (rule reachable_fire)
  then show ?thesis
    unfolding sReply2_def using reply2_pending by (rule reachable_fire)
qed

lemma messages_sReply2:
  "messages sReply2 = messages sSent2 @
     [\<lparr>message_id = str ''msg-response-1700000010000'', senderId = str ''user2'',
       message_text = responses ! 0, timestamp = 1700000010000, reactions = Map.empty,
       message_status = Sent\<rparr>,
      \<lparr>message_id = str ''msg-response-1700000010000'', senderId = str ''user2'',
       message_text = responses ! 1, timestamp = 1700000010000, reactions = Map.empty,
       message_status = Sent\<rparr>]"
proof -
  have l: "length (messages sDana) = 8" "length (messages sSent1) = 9" "length responses = 8"
    by (simp_all add: sSent1_fields messages_sDana mockMessages_def responses_def)
  have i: "user_id (mockUsers tMount ! Suc 0) = str ''user2''" by (simp add: mockUsers_def)
  have n: "numberToString 1700000010000 = str ''1700000010000''" "now tReply = 1700000010000"
    by (simp_all add: tReply_def string_eval)
  show ?thesis
    by (simp add: sReply2_def sReply1_def reply1_def reply2_def sendReply_fields l i n
          str_append [symmetric])
qed

text \<open>
  C9 fails on the code. Two replies whose callbacks run at the same clock reading get the
  same id, since a reply id is \<open>msg-response-\<close> followed by the time alone. The state is
  reachable: Dana sends at 22:13:24 and at 22:13:27, and both reply callbacks run at
  22:13:30. The log then holds twelve messages and the last two share their id.
\<close>

theorem reply_ids_collide:
  "reachable sReply2 \<and> length (messages sReply2) = 12
   \<and> message_id (messages sReply2 ! 10) = str ''msg-response-1700000010000''
   \<and> message_id (messages sReply2 ! 11) = str ''msg-response-1700000010000''
   \<and> \<not> distinct (map message_id (messages sReply2))"
proof -
  have l: "length (messages sSent2) = 10"
    by (simp add: sSent2_fields sSent1_fields messages_sDana mockMessages_def)
  from l have "length (messages sReply2) = 12"
    and "message_id (messages sReply2 ! 10) = str ''msg-response-1700000010000''"
    and "message_id (messages sReply2 ! 11) = str ''msg-response-1700000010000''"
    and "\<not> distinct (map message_id (messages sReply2))"
    by (simp_all add: messages_sReply2 nth_append)
  with reachable_sReply2 show ?thesis by simp
qed

section \<open>Properties of the reaction handler\<close>

lemma handleEmojiReaction_first_render:
  "handleEmojiReaction (currentUser initialSession) messageId emoji s = s"
  by (simp add: handleEmojiReaction_def first_render_user)

lemma addReaction_first_render:
  "addReaction (currentUser initialSession) mounted msgs lu s = s"
  by (simp add: addReaction_def handleEmojiReaction_first_render Let_def split: option.splits)

lemma send_messages_cases:
  "messages (snd (snd (ChatInput_handleSendMessage rd ci s))) = messages s
   \<or> (\<exists>m. messages (snd (snd (ChatInput_handleSendMessage rd ci s))) = messages s @ [m]
          \<and> reactions m = Map.empty)"
  by (auto simp: ChatInput_handleSendMessage_def handleSendMessage_def Let_def
        simulateResponse_frame scrollToBottom_def updateUserTypingStatus_def
        split: option.splits)

lemma fire_messages_cases:
  "messages (fire (currentUser initialSession) rd cb s) = messages s
   \<or> (\<exists>m. messages (fire (currentUser initialSession) rd cb s) = messages s @ [m]
          \<and> reactions m = Map.empty)"
proof (cases cb)
  case (SendReply mounted ru msgs lu)
  then show ?thesis
    by (auto simp: sendReply_def Let_def updateUserTypingStatus_def)
next
  case (AddReaction mounted msgs lu)
  then show ?thesis by (simp add: addReaction_first_render)
qed (simp_all add: typingStart_def updateUserTypingStatus_def restoreScroll_def)

lemma seeded_step:
  assumes "\<And>m. m \<in> set xs \<Longrightarrow> reactions m = Map.empty \<or> (\<exists>rd. m \<in> set (mockMessages rd))"
    and "ys = xs \<or> (\<exists>n. ys = xs @ [n] \<and> reactions n = Map.empty)"
    and "m \<in> set ys"
  shows "reactions m = Map.empty \<or> (\<exists>rd. m \<in> set (mockMessages rd))"
proof (cases "m \<in> set xs")
  case True
  then show ?thesis by (rule assms(1))
next
  case False
  with assms(2,3) have "reactions m = Map.empty" by auto
  then show ?thesis by simp
qed

text \<open>
  No reaction is ever added to the log: in a reachable state every message either has no
  reactions or is one of the seeded messages, with the reactions it was seeded with.
\<close>

lemma reachable_reactions_seeded:
  "reachable s \<Longrightarrow> m \<in> set (messages s) \<Longrightarrow>
     reactions m = Map.empty \<or> (\<exists>rd. m \<in> set (mockMessages rd))"
proof (induction arbitrary: m rule: reachable.induct)
  case start
  then show ?case by (simp add: initialSession_def)
next
  case (mounted s rd)
  then show ?case by (auto simp: mount_def)
next
  case (login s rd name)
  then show ?case
    by (simp add: LoginInput_handleLogin_def handleLoginSubmit_def Let_def split: if_splits)
next
  case (logout s)
  then show ?case by (simp add: handleLogout_def)
next
  case (logoutNow s)
  then show ?case by (simp add: handleLogoutNow_def)
next
  case (send s rd ci)
  show ?case
    by (rule seeded_step [OF send.IH send_messages_cases send.prems])
next
  case (react s messageId emoji)
  then show ?case by (simp add: handleEmojiReaction_first_render)
next
  case (status s rd st)
  then show ?case by (simp add: changeUserStatus_def split: option.splits if_splits)
next
  case (frame s)
  then show ?case by (auto simp: statusAnimationFrame_def split: option.splits prod.splits)
next
  case (search s query)
  then show ?case by (simp add: performSearch_def Let_def split: if_splits)
next
  case (navigate s dir)
  then show ?case by (simp add: navigateSearch_def Let_def split: if_splits)
next
  case (jump s)
  then show ?case by (simp add: handleScrollToBottom_def scrollToBottom_def)
next
  case (timer s d cb rd)
  have step: "messages (fire (currentUser initialSession) rd cb (s\<lparr>timers := remove1 (d, cb) (timers s)\<rparr>))
          = messages s
        \<or> (\<exists>n. messages (fire (currentUser initialSession) rd cb
                             (s\<lparr>timers := remove1 (d, cb) (timers s)\<rparr>)) = messages s @ [n]
               \<and> reactions n = Map.empty)"
    using fire_messages_cases [of rd cb "s\<lparr>timers := remove1 (d, cb) (timers s)\<rparr>"] by simp
  show ?case
    by (rule seeded_step [OF timer.IH step timer.prems])
next
  case (scroll s el)
  then show ?case by (simp add: handleScroll_def)
qed

text \<open>No \<open>restoreScroll\<close> callback is ever pending in a reachable state.\<close>

lemma send_timers_no_restore:
  "(d, RestoreScroll p a b) \<in> set (timers (snd (snd (ChatInput_handleSendMessage rd ci s)))) \<Longrightarrow>
     (d, RestoreScroll p a b) \<in> set (timers s)"
  by (auto simp: ChatInput_handleSendMessage_def handleSendMessage_def Let_def
        simulateResponse_def scrollToBottom_def updateUserTypingStatus_def
        split: option.splits if_splits)

lemma fire_timers_no_restore:
  "(d, RestoreScroll p a b) \<in> set (timers (fire (currentUser initialSession) rd cb s)) \<Longrightarrow>
     (d, RestoreScroll p a b) \<in> set (timers s)"
proof (cases cb)
  case (SendReply mounted ru msgs lu)
  assume "(d, RestoreScroll p a b) \<in> set (timers (fire (currentUser initialSession) rd cb s))"
  with SendReply show ?thesis
    by (auto simp: sendReply_def Let_def updateUserTypingStatus_def split: if_splits)
next
  case (AddReaction mounted msgs lu)
  assume "(d, RestoreScroll p a b) \<in> set (timers (fire (currentUser initialSession) rd cb s))"
  with AddReaction show ?thesis by (simp add: addReaction_first_render)
qed (auto simp: typingStart_def updateUserTypingStatus_def restoreScroll_def split: if_splits)

lemma reachable_no_restore:
  "reachable s \<Longrightarrow> (d, RestoreScroll p a b) \<notin> set (timers s)"
proof (induction rule: reachable.induct)
  case start
  then show ?case by (simp add: initialSession_def)
next
  case (mounted s rd)
  then show ?case by (simp add: mount_def)
next
  case (login s rd name)
  then show ?case
    by (simp add: LoginInput_handleLogin_def handleLoginSubmit_def Let_def split: if_splits)
next
  case (logout s)
  then show ?case by (simp add: handleLogout_def)
next
  case (logoutNow s)
  then show ?case by (simp add: handleLogoutNow_def)
next
  case (send s rd ci)
  then show ?case using send_timers_no_restore by blast
next
  case (react s messageId emoji)
  then show ?case by (simp add: handleEmojiReaction_first_render)
next
  case (status s rd st)
  then show ?case by (simp add: changeUserStatus_def split: option.splits if_splits)
next
  case (frame s)
  then show ?case by (auto simp: statusAnimationFrame_def split: option.splits prod.splits)
next
  case (search s query)
  then show ?case by (simp add: performSearch_def Let_def split: if_splits)
next
  case (navigate s dir)
  then show ?case by (simp add: navigateSearch_def Let_def split: if_splits)
next
  case (jump s)
  then show ?case by (simp add: handleScrollToBottom_def scrollToBottom_def)
next
  case (timer s d' cb rd)
  show ?case
  proof
    assume "(d, RestoreScroll p a b)
              \<in> set (timers (fire (currentUser initialSession) rd cb
                                (s\<lparr>timers := remove1 (d', cb) (timers s)\<rparr>)))"
    then have "(d, RestoreScroll p a b) \<in> set (remove1 (d', cb) (timers s))"
      using fire_timers_no_restore [of d p a b rd cb "s\<lparr>timers := remove1 (d', cb) (timers s)\<rparr>"]
      by simp
    then have "(d, RestoreScroll p a b) \<in> set (timers s)"
      using set_remove1_subset [of "(d', cb)" "timers s"] by blast
    with timer.IH show False by simp
  qed
next
  case (scroll s el)
  then show ?case by (simp add: handleScroll_def)
qed



text \<open>
  C8 fails on the code. Whatever the state, the scroll geometry and the user logged in,
  the reaction handler returns at its first line, because the current user in its closure
  is the one of the first render: it reads no scroll offset and schedules no
  \<open>restoreScroll\<close>, and the state after the call is the state before it. So when Dana,
  logged in, clicks the second emoji on the last seeded message, no timer is pending
  afterwards and nothing sets the scroll offset to the offset before the click plus the
  change of the content height.
\<close>

theorem reaction_schedules_no_restore:
  "handleEmojiReaction (currentUser initialSession) messageId emoji s = s
   \<and> chatContainer (handleEmojiReaction (currentUser initialSession) messageId emoji s)
       = chatContainer s
   \<and> timers (handleEmojiReaction (currentUser initialSession) messageId emoji s) = timers s
   \<and> reachable sDana \<and> currentUser sDana = Some dana \<and> timers sDana = []
   \<and> handleEmojiReaction (currentUser initialSession) (str ''msg8'') (str ''heart'') sDana = sDana
   \<and> timers (handleEmojiReaction (currentUser initialSession) (str ''msg8'') (str ''heart'') sDana)
       = []"
proof -
  have "timers sDana = []" by (simp add: sDana_eq mount_def initialSession_def)
  with reachable_sDana sDana_state show ?thesis
    by (simp add: handleEmojiReaction_first_render)
qed

lemma timers_sReply2: "(1500, reaction2) \<in> set (timers sReply2)"
proof -
  have "length (messages sSent1) mod 3 = 0"
    by (simp add: sSent1_fields messages_sDana mockMessages_def)
  then show ?thesis
    by (simp add: sReply2_def reply2_def reaction2_def sendReply_fields)
qed

lemma reachable_sReacted: "reachable sReacted"
  unfolding sReacted_def using reachable_sReply2 timers_sReply2 by (rule reachable.timer)

lemma currentUser_sReacted: "currentUser sReacted = Some dana"
proof -
  have "currentUser sSent2 = Some dana"
    by (simp add: sSent2_def ChatInput_handleSendMessage_def Let_def handleSendMessage_state
          sSent1_fields)
  then show ?thesis
    by (simp add: sReacted_def reaction2_def addReaction_first_render sReply2_def sReply1_def
          reply1_def reply2_def sendReply_fields)
qed

text \<open>
  C10 fails on the code. Dana has sent \<open>hi\<close> and \<open>again\<close>, and the second reply has
  scheduled the reaction callback. The callback runs while Dana is logged in, finds
  Dana's \<open>hi\<close>, the ninth message, and calls the reaction handler, which returns at its
  first line: the log is what it was and the message has no reaction, under Dana's id or
  any other. A click of Dana on an emoji goes through the same handler and records
  nothing either.
\<close>

theorem simulator_reaction_not_recorded:
  "reachable sReacted
   \<and> currentUser sReacted = Some dana
   \<and> (1500, reaction2) \<in> set (timers sReply2)
   \<and> find (\<lambda>msg. senderId msg = user_id dana) (rev (messages sSent1)) = Some (messages sReply2 ! 8)
   \<and> message_text (messages sReply2 ! 8) = str ''hi''
   \<and> messages sReacted = messages sReply2
   \<and> reactions (messages sReacted ! 8) = Map.empty
   \<and> messages (handleEmojiReaction (currentUser initialSession) (str ''msg1'') (str ''joy'') sDana)
       = messages sDana"
proof -
  have l: "length (messages sDana) = 8" by (simp add: messages_sDana mockMessages_def)
  have e: "messages sReply2 ! 8 =
             \<lparr>message_id = str ''msg-1700000004000-417'', senderId = user_id dana,
              message_text = str ''hi'', timestamp = 1700000004000, reactions = Map.empty,
              message_status = Sent\<rparr>"
    by (simp add: messages_sReply2 sSent2_fields sSent1_fields nth_append l)
  have f: "find (\<lambda>msg. senderId msg = user_id dana) (rev (messages sSent1)) = Some (messages sReply2 ! 8)"
    unfolding e by (simp add: sSent1_fields)
  have m: "messages sReacted = messages sReply2"
    by (simp add: sReacted_def reaction2_def addReaction_first_render)
  from reachable_sReacted currentUser_sReacted timers_sReply2 f m e show ?thesis
    by (simp add: handleEmojiReaction_first_render)
qed

end
